theory Spec2Isabelle
  imports Complex_Main
begin

section \<open>JavaScript values and errors\<close>

text \<open>
  The connectors of \<^verbatim>\<open>server/lib/api-connectors.ts\<close> work on the parsed JSON bodies of
  remote responses, typed \<^verbatim>\<open>any\<close>. They are modelled as the values below. \<open>JUndefined\<close>
  is the result of reading a property that does not exist. \<open>JObj\<close> lists the own
  properties of an object in the engine's enumeration order (the order of
  \<^verbatim>\<open>Object.values\<close>). Strings are sequences of code units below 256.
\<close>

datatype json =
    JUndefined
  | JNull
  | JBool bool
  | JNum real
  | JStr string
  | JArr "json list"
  | JObj "(string \<times> json) list"

text \<open>
  Every \<^verbatim>\<open>throw\<close> of the source and every exception of the runtime is a value:
  \<open>HttpError p s t\<close> is \<^verbatim>\<open>new Error(`${p}: ${s} ${t}`)\<close>, the error the low-level fetch
  methods raise for a response that is not ok, carrying status \<open>s\<close> and status text \<open>t\<close>.
\<close>

datatype error =
    TypeError
  | RangeError
  | SyntaxError
  | FetchRejected
  | HttpError string nat string
  | Error string

definition bindE :: "error + 'a \<Rightarrow> ('a \<Rightarrow> error + 'b) \<Rightarrow> error + 'b" where
  "bindE m f = (case m of Inl e \<Rightarrow> Inl e | Inr v \<Rightarrow> f v)"

text \<open>Truthiness, as \<^verbatim>\<open>!v\<close>, \<^verbatim>\<open>v || d\<close> and \<^verbatim>\<open>if (v)\<close> test it.\<close>

fun truthy :: "json \<Rightarrow> bool" where
  "truthy JUndefined = False"
| "truthy JNull = False"
| "truthy (JBool b) = b"
| "truthy (JNum x) = (x \<noteq> 0)"
| "truthy (JStr s) = (s \<noteq> [])"
| "truthy (JArr xs) = True"
| "truthy (JObj kvs) = True"

definition orElse :: "json \<Rightarrow> json \<Rightarrow> json" where
  "orElse v d = (if truthy v then v else d)"

text \<open>
  \<open>field v k\<close> is \<^verbatim>\<open>v.k\<close> on a value that is neither null nor undefined, for the
  property names the source reads (none of them is inherited from a prototype);
  \<open>getProp\<close> adds the TypeError of reading a property of null or undefined, and
  \<open>optProp\<close> is \<^verbatim>\<open>v?.k\<close>.
\<close>

fun field :: "json \<Rightarrow> string \<Rightarrow> json" where
  "field (JObj kvs) k = (case map_of kvs k of None \<Rightarrow> JUndefined | Some v \<Rightarrow> v)"
| "field (JArr xs) k = (if k = ''length'' then JNum (real (length xs)) else JUndefined)"
| "field (JStr s) k = (if k = ''length'' then JNum (real (length s)) else JUndefined)"
| "field v k = JUndefined"

fun nullish :: "json \<Rightarrow> bool" where
  "nullish JUndefined = True"
| "nullish JNull = True"
| "nullish v = False"

definition getProp :: "json \<Rightarrow> string \<Rightarrow> error + json" where
  "getProp v k = (if nullish v then Inl TypeError else Inr (field v k))"

definition optProp :: "json \<Rightarrow> string \<Rightarrow> json" where
  "optProp v k = (if nullish v then JUndefined else field v k)"

fun isArray :: "json \<Rightarrow> bool" where
  "isArray (JArr xs) = True"
| "isArray v = False"

text \<open>\<^verbatim>\<open>Object.values(v)\<close>.\<close>

fun objectValues :: "json \<Rightarrow> error + json list" where
  "objectValues (JObj kvs) = Inr (map snd kvs)"
| "objectValues (JArr xs) = Inr xs"
| "objectValues (JStr s) = Inr (map (\<lambda>c. JStr [c]) s)"
| "objectValues JUndefined = Inl TypeError"
| "objectValues JNull = Inl TypeError"
| "objectValues v = Inr []"

text \<open>\<^verbatim>\<open>String.prototype.toLowerCase\<close> on code units below 256.\<close>

definition lowerChar :: "char \<Rightarrow> char" where
  "lowerChar c =
     (let n = (of_char c :: nat)
      in if (65 \<le> n \<and> n \<le> 90) \<or> (192 \<le> n \<and> n \<le> 222 \<and> n \<noteq> 215)
         then char_of (n + 32) else c)"

definition toLowerCase :: "string \<Rightarrow> string" where
  "toLowerCase s = map lowerChar s"

section \<open>Remote responses\<close>

text \<open>
  What \<^verbatim>\<open>await fetch(url)\<close> gives: the promise rejects (\<open>Rejected\<close>, a network failure),
  or there is a response with a status, a status text and a body. The body is kept as
  the result of \<^verbatim>\<open>response.json()\<close>: \<open>None\<close> when it is not valid JSON.
  \<^verbatim>\<open>response.ok\<close> holds for the statuses 200 to 299.
\<close>

datatype 'a response = Rejected | Response nat string "'a option"

definition ok :: "nat \<Rightarrow> bool" where
  "ok status = (200 \<le> status \<and> status \<le> 299)"

text \<open>
  The shared shape of \<^verbatim>\<open>fetchFromTrello\<close>, \<^verbatim>\<open>fetchFromNotion\<close> and \<^verbatim>\<open>fetchFromGmail\<close> after
  the request is sent: a response that is not ok raises the error with the service's
  prefix, the status and the status text; the catch block logs and rethrows.
\<close>

definition readResponse :: "string \<Rightarrow> 'a response \<Rightarrow> error + 'a" where
  "readResponse prefix r =
     (case r of
        Rejected \<Rightarrow> Inl FetchRejected
      | Response status statusText body \<Rightarrow>
          if \<not> ok status then Inl (HttpError prefix status statusText)
          else (case body of None \<Rightarrow> Inl SyntaxError | Some v \<Rightarrow> Inr v))"

text \<open>\<^verbatim>\<open>try { return ... } catch (error) { return d }\<close>: the caller never sees the error.\<close>

definition catchWith :: "'a \<Rightarrow> error + 'a \<Rightarrow> error + 'a" where
  "catchWith d m = (case m of Inl e \<Rightarrow> Inr d | Inr v \<Rightarrow> Inr v)"

section \<open>Dates and built-in objects\<close>

text \<open>
  A \<^verbatim>\<open>Date\<close> is its time value, the milliseconds since the epoch, or \<open>None\<close> for an
  Invalid Date. A value that is not JSON data, such as a function of the standard
  library or a prototype object, is a \<open>Builtin\<close> with its name.

  What the engine supplies is a parameter of the model: \<open>parseDate\<close> is
  \<^verbatim>\<open>new Date(string)\<close>, whose accepted formats are implementation-defined;
  \<open>localTZA t isUTC\<close> is the offset of local time from UTC in milliseconds, at the
  instant \<open>t\<close> when \<open>isUTC\<close> holds and at the local time \<open>t\<close> otherwise, as the
  language standard names it; \<open>tzOffset\<close> is that offset on a day on which it does not
  change, which is how the hour and the minute of a date are modelled;
  \<open>objectPrototype k\<close> is \<^verbatim>\<open>Object.prototype[k]\<close>, the value a plain object inherits
  under the key \<open>k\<close>, undefined for most keys; \<open>memberOf v k\<close> is \<^verbatim>\<open>v[k]\<close> for a string
  or a built-in object \<open>v\<close>; \<open>toStr\<close> is the string conversion of a value that is not a
  string and \<open>toLocaleString\<close> the locale's rendering of an instant.
\<close>

type_synonym date = "int option"

datatype jsvalue = Plain json | Builtin string

fun truthyValue :: "jsvalue \<Rightarrow> bool" where
  "truthyValue (Plain v) = truthy v"
| "truthyValue (Builtin b) = True"

fun nullishValue :: "jsvalue \<Rightarrow> bool" where
  "nullishValue (Plain v) = nullish v"
| "nullishValue (Builtin b) = False"

record engine =
  parseDate :: "string \<Rightarrow> date"
  localTZA :: "int \<Rightarrow> bool \<Rightarrow> int"
  tzOffset :: int
  objectPrototype :: "string \<Rightarrow> jsvalue"
  memberOf :: "jsvalue \<Rightarrow> string \<Rightarrow> jsvalue"
  toStr :: "json \<Rightarrow> string"
  toLocaleString :: "int \<Rightarrow> string"

definition msPerMinute :: int where "msPerMinute = 60000"
definition msPerHour :: int where "msPerHour = 3600000"
definition msPerDay :: int where "msPerDay = 86400000"
definition maxTime :: int where "maxTime = 8640000000000000"

definition timeClip :: "int \<Rightarrow> date" where
  "timeClip t = (if \<bar>t\<bar> \<le> maxTime then Some t else None)"

text \<open>
  Local time and back, and the day of the month of a local time: the day number is
  turned into a civil date of the Gregorian calendar, counting from the first of
  March of a year divisible by 400.
\<close>

definition localTime :: "engine \<Rightarrow> int \<Rightarrow> int" where
  "localTime eng t = t + localTZA eng t True"

definition utcTime :: "engine \<Rightarrow> int \<Rightarrow> int" where
  "utcTime eng l = l - localTZA eng l False"

definition dateFromTime :: "int \<Rightarrow> int" where
  "dateFromTime l =
     (let dayOfEra = (l div msPerDay + 719468) mod 146097;
          yearOfEra = (dayOfEra - dayOfEra div 1460 + dayOfEra div 36524 - dayOfEra div 146096)
                      div 365;
          dayOfYear = dayOfEra - (365 * yearOfEra + yearOfEra div 4 - yearOfEra div 100);
          monthFromMarch = (5 * dayOfYear + 2) div 153
      in dayOfYear - (153 * monthFromMarch + 2) div 5 + 1)"

text \<open>\<^verbatim>\<open>d.getDate()\<close> of a valid date.\<close>

definition getDate :: "engine \<Rightarrow> int \<Rightarrow> int" where
  "getDate eng t = dateFromTime (localTime eng t)"

text \<open>
  \<^verbatim>\<open>d.setDate(dt)\<close> works on the local time: it keeps the month and the time within the
  day and puts the day of the month to \<open>dt\<close>, days beyond the month's end running
  into the following months, so the local time moves by \<open>dt\<close> minus the current day
  of the month, in days; the result goes back to UTC with the offset in force at
  the new local time.
\<close>

definition setDate :: "engine \<Rightarrow> date \<Rightarrow> int \<Rightarrow> date" where
  "setDate eng d dt =
     (case d of
        None \<Rightarrow> None
      | Some t \<Rightarrow>
          timeClip (utcTime eng
            (localTime eng t + (dt - dateFromTime (localTime eng t)) * msPerDay)))"

text \<open>
  \<^verbatim>\<open>d.setHours(h, m)\<close> keeps the local day, the seconds and the milliseconds and puts
  the hour and the minute; \<^verbatim>\<open>getHours\<close> and \<^verbatim>\<open>getMinutes\<close> read them back. A \<open>None\<close>
  argument is NaN.
\<close>

definition setHours :: "engine \<Rightarrow> date \<Rightarrow> int option \<Rightarrow> int option \<Rightarrow> date" where
  "setHours eng d h m =
     (case (d, h, m) of
        (Some t, Some hh, Some mm) \<Rightarrow>
          (let l = t + tzOffset eng;
               l' = (l div msPerDay) * msPerDay + hh * msPerHour + mm * msPerMinute
                    + l mod msPerMinute
           in timeClip (l' - tzOffset eng))
      | _ \<Rightarrow> None)"



section \<open>Array helpers\<close>

text \<open>
  \<^verbatim>\<open>arr.map(f)\<close> and \<^verbatim>\<open>arr.find(f)\<close> with a callback that may throw: the first exception
  ends the call. Calling \<^verbatim>\<open>.map\<close> or \<^verbatim>\<open>.find\<close> on a value that is not an array is a
  TypeError (the property is not a function).
\<close>

fun mapE :: "('a \<Rightarrow> error + 'b) \<Rightarrow> 'a list \<Rightarrow> error + 'b list" where
  "mapE f [] = Inr []"
| "mapE f (x # xs) = bindE (f x) (\<lambda>y. bindE (mapE f xs) (\<lambda>ys. Inr (y # ys)))"

fun findE :: "(json \<Rightarrow> error + bool) \<Rightarrow> json list \<Rightarrow> error + json" where
  "findE p [] = Inr JUndefined"
| "findE p (x # xs) = bindE (p x) (\<lambda>hit. if hit then Inr x else findE p xs)"

fun arrayMap :: "(json \<Rightarrow> error + 'b) \<Rightarrow> json \<Rightarrow> error + 'b list" where
  "arrayMap f (JArr xs) = mapE f xs"
| "arrayMap f v = Inl TypeError"

fun arrayFind :: "(json \<Rightarrow> error + bool) \<Rightarrow> json \<Rightarrow> error + json" where
  "arrayFind p (JArr xs) = findE p xs"
| "arrayFind p v = Inl TypeError"

text \<open>
  \<^verbatim>\<open>parts.join('')\<close>: the string conversions of the elements, concatenated; null and
  undefined elements count as empty. \<open>keyOf\<close> is the conversion of a computed property
  key, \<^verbatim>\<open>v[k]\<close>.
\<close>

definition joinItem :: "engine \<Rightarrow> json \<Rightarrow> string" where
  "joinItem eng v =
     (case v of JStr s \<Rightarrow> s | JNull \<Rightarrow> [] | JUndefined \<Rightarrow> [] | _ \<Rightarrow> toStr eng v)"

definition joinEmpty :: "engine \<Rightarrow> json list \<Rightarrow> string" where
  "joinEmpty eng parts = concat (map (joinItem eng) parts)"

definition keyOf :: "engine \<Rightarrow> json \<Rightarrow> string" where
  "keyOf eng v = (case v of JStr s \<Rightarrow> s | _ \<Rightarrow> toStr eng v)"

section \<open>Regular expressions\<close>

text \<open>
  The patterns of \<^verbatim>\<open>createTrelloCardFromEmail\<close> are built from character classes,
  sequence, alternative, the greedy option \<^verbatim>\<open>?\<close>, the greedy \<^verbatim>\<open>*\<close> and the lazy \<^verbatim>\<open>*?\<close> of a
  class. \<open>rmatch r s\<close> lists the rests of \<open>s\<close> after every way of matching \<open>r\<close> at the
  start of \<open>s\<close>, in the order in which a backtracking matcher tries them.
  \<open>matchFirst\<close> is \<^verbatim>\<open>s.match(r)[0]\<close> for a pattern without the global flag: the first
  way of matching at the leftmost position that has one, \<open>None\<close> for null.
\<close>

datatype rx =
    Eps
  | Cls "char \<Rightarrow> bool"
  | Seq rx rx
  | Alt rx rx
  | Opt rx
  | Many "char \<Rightarrow> bool"
  | Few "char \<Rightarrow> bool"

fun restsWhile :: "(char \<Rightarrow> bool) \<Rightarrow> string \<Rightarrow> string list" where
  "restsWhile p [] = [[]]"
| "restsWhile p (c # cs) = (c # cs) # (if p c then restsWhile p cs else [])"

fun rmatch :: "rx \<Rightarrow> string \<Rightarrow> string list" where
  "rmatch Eps s = [s]"
| "rmatch (Cls p) s = (case s of [] \<Rightarrow> [] | c # cs \<Rightarrow> if p c then [cs] else [])"
| "rmatch (Seq a b) s = concat (map (rmatch b) (rmatch a s))"
| "rmatch (Alt a b) s = rmatch a s @ rmatch b s"
| "rmatch (Opt a) s = rmatch a s @ [s]"
| "rmatch (Many p) s = rev (restsWhile p s)"
| "rmatch (Few p) s = restsWhile p s"

fun matchFirst :: "rx \<Rightarrow> string \<Rightarrow> string option" where
  "matchFirst r [] = (case rmatch r [] of [] \<Rightarrow> None | rest # _ \<Rightarrow> Some [])"
| "matchFirst r (c # cs) =
     (case rmatch r (c # cs) of
        [] \<Rightarrow> matchFirst r cs
      | rest # _ \<Rightarrow> Some (take (length (c # cs) - length rest) (c # cs)))"

text \<open>
  The classes \<^verbatim>\<open>\d\<close>, \<^verbatim>\<open>\w\<close>, \<^verbatim>\<open>\s\<close> and \<^verbatim>\<open>.\<close> on code units below 256, a literal
  character, and a literal character under the flag \<^verbatim>\<open>i\<close>, written in lower case.
\<close>

definition isDigit :: "char \<Rightarrow> bool" where
  "isDigit c = (let n = (of_char c :: nat) in 48 \<le> n \<and> n \<le> 57)"

definition isWord :: "char \<Rightarrow> bool" where
  "isWord c =
     (let n = (of_char c :: nat)
      in (48 \<le> n \<and> n \<le> 57) \<or> (65 \<le> n \<and> n \<le> 90) \<or> n = 95 \<or> (97 \<le> n \<and> n \<le> 122))"

definition isSpace :: "char \<Rightarrow> bool" where
  "isSpace c = (let n = (of_char c :: nat) in (9 \<le> n \<and> n \<le> 13) \<or> n = 32 \<or> n = 160)"

definition isDot :: "char \<Rightarrow> bool" where
  "isDot c = (let n = (of_char c :: nat) in n \<noteq> 10 \<and> n \<noteq> 13)"

definition chr :: "char \<Rightarrow> rx" where
  "chr x = Cls (\<lambda>c. c = x)"

definition chrI :: "char \<Rightarrow> rx" where
  "chrI x = Cls (\<lambda>c. lowerChar c = x)"

fun wordI :: "string \<Rightarrow> rx" where
  "wordI [] = Eps"
| "wordI (x # xs) = Seq (chrI x) (wordI xs)"

fun seqs :: "rx list \<Rightarrow> rx" where
  "seqs [] = Eps"
| "seqs (r # rs) = Seq r (seqs rs)"

text \<open>
  \<^verbatim>\<open>/(\d{1,2}[-/]\d{1,2}[-/]\d{2,4})|(\w+ \d{1,2}(?:st|nd|rd|th)?, \d{4})/i\<close>,
  \<^verbatim>\<open>/(\d{1,2}:\d{2}(?:\s*[AaPp][Mm])?)/\<close> and
  \<^verbatim>\<open>/(please|kindly)\s+(\w+).*?[.?!]/i\<close>.
\<close>

definition digits12 :: rx where
  "digits12 = Seq (Cls isDigit) (Opt (Cls isDigit))"

definition digits24 :: rx where
  "digits24 = seqs [Cls isDigit, Cls isDigit, Opt (Seq (Cls isDigit) (Opt (Cls isDigit)))]"

definition dashOrSlash :: rx where
  "dashOrSlash = Cls (\<lambda>c. c = CHR ''-'' \<or> c = CHR ''/'')"

definition datePattern :: rx where
  "datePattern =
     Alt (seqs [digits12, dashOrSlash, digits12, dashOrSlash, digits24])
         (seqs [Cls isWord, Many isWord, chr CHR '' '', digits12,
                Opt (Alt (wordI ''st'') (Alt (wordI ''nd'') (Alt (wordI ''rd'') (wordI ''th'')))),
                chr CHR '','', chr CHR '' '',
                Cls isDigit, Cls isDigit, Cls isDigit, Cls isDigit])"

definition timePattern :: rx where
  "timePattern =
     seqs [digits12, chr CHR '':'', Cls isDigit, Cls isDigit,
           Opt (seqs [Many isSpace,
                      Cls (\<lambda>c. c = CHR ''A'' \<or> c = CHR ''a'' \<or> c = CHR ''P'' \<or> c = CHR ''p''),
                      Cls (\<lambda>c. c = CHR ''M'' \<or> c = CHR ''m'')])]"

definition instructionPattern :: rx where
  "instructionPattern =
     seqs [Alt (wordI ''please'') (wordI ''kindly''), Cls isSpace, Many isSpace,
           Cls isWord, Many isWord, Few isDot,
           Cls (\<lambda>c. c = CHR ''.'' \<or> c = CHR ''?'' \<or> c = CHR ''!'')]"

section \<open>String helpers\<close>

text \<open>
  \<^verbatim>\<open>s.split(c)\<close>, \<^verbatim>\<open>xs[i]\<close> (\<open>None\<close> for undefined), \<^verbatim>\<open>s.includes(p)\<close>, and \<^verbatim>\<open>parseInt\<close> of a
  string or of undefined: leading white space, a sign, then the longest run of decimal
  digits, \<open>None\<close> (NaN) without a digit. The strings parsed here begin with a digit, so
  the prefix \<^verbatim>\<open>0x\<close> of a hexadecimal number cannot occur.
\<close>

fun splitOn :: "char \<Rightarrow> string \<Rightarrow> string list" where
  "splitOn sep [] = [[]]"
| "splitOn sep (c # cs) =
     (if c = sep then [] # splitOn sep cs
      else (case splitOn sep cs of [] \<Rightarrow> [[c]] | p # ps \<Rightarrow> (c # p) # ps))"

fun partAt :: "'a list \<Rightarrow> nat \<Rightarrow> 'a option" where
  "partAt [] i = None"
| "partAt (x # xs) 0 = Some x"
| "partAt (x # xs) (Suc i) = partAt xs i"

fun includesStr :: "string \<Rightarrow> string \<Rightarrow> bool" where
  "includesStr [] p = (p = [])"
| "includesStr (c # cs) p = (take (length p) (c # cs) = p \<or> includesStr cs p)"

definition digitValue :: "char \<Rightarrow> int" where
  "digitValue c = int (of_char c) - 48"

definition parseInt :: "string option \<Rightarrow> int option" where
  "parseInt arg =
     (case arg of
        None \<Rightarrow> None
      | Some s \<Rightarrow>
          (let t = dropWhile isSpace s;
               negative = (t \<noteq> [] \<and> hd t = CHR ''-'');
               u = (if t \<noteq> [] \<and> (hd t = CHR ''-'' \<or> hd t = CHR ''+'') then tl t else t);
               ds = takeWhile isDigit u;
               n = foldl (\<lambda>a c. 10 * a + digitValue c) 0 ds
           in if ds = [] then None else Some (if negative then - n else n)))"

section \<open>The connector factory\<close>

text \<open>
  The constructors read the token from the argument, then from the process environment:
  \<^verbatim>\<open>this.token = token || process.env.TRELLO_TOKEN || ''\<close>. The environment is a map from
  variable names to strings.
\<close>

type_synonym env = "string \<rightharpoonup> string"

definition strOr :: "string option \<Rightarrow> string \<Rightarrow> string" where
  "strOr v d = (case v of None \<Rightarrow> d | Some s \<Rightarrow> if s = [] then d else s)"

record TrelloConnector =
  trelloToken :: string
  trelloApiKey :: string

record NotionConnector =
  notionToken :: string

record GmailConnector =
  gmailToken :: string

definition newTrelloConnector :: "env \<Rightarrow> string option \<Rightarrow> TrelloConnector" where
  "newTrelloConnector ev token =
     \<lparr> trelloToken = strOr token (strOr (ev ''TRELLO_TOKEN'') ''''),
       trelloApiKey = strOr (ev ''TRELLO_API_KEY'') '''' \<rparr>"

definition newNotionConnector :: "env \<Rightarrow> string option \<Rightarrow> NotionConnector" where
  "newNotionConnector ev token =
     \<lparr> notionToken = strOr token (strOr (ev ''NOTION_TOKEN'') '''') \<rparr>"

definition newGmailConnector :: "env \<Rightarrow> string option \<Rightarrow> GmailConnector" where
  "newGmailConnector ev token =
     \<lparr> gmailToken = strOr token (strOr (ev ''GMAIL_API_TOKEN'') '''') \<rparr>"

datatype connector =
    Trello TrelloConnector
  | Notion NotionConnector
  | Gmail GmailConnector

text \<open>\<^verbatim>\<open>ConnectorFactory.createConnector(type, token)\<close>: a switch on the lower-cased tag.\<close>

definition createConnector :: "env \<Rightarrow> string \<Rightarrow> string option \<Rightarrow> error + connector" where
  "createConnector ev type token =
     (let t = toLowerCase type
      in if t = ''trello'' then Inr (Trello (newTrelloConnector ev token))
         else if t = ''notion'' then Inr (Notion (newNotionConnector ev token))
         else if t = ''gmail'' then Inr (Gmail (newGmailConnector ev token))
         else Inl (Error (''Unsupported integration type: '' @ type)))"

definition supportedTypes :: "string set" where
  "supportedTypes = {''trello'', ''notion'', ''gmail''}"

section \<open>The in-memory widget store\<close>







section \<open>The task-board connector\<close>

text \<open>
  The records are the declared types \<^verbatim>\<open>TrelloCard\<close>, \<^verbatim>\<open>TrelloBoard\<close> and \<^verbatim>\<open>TrelloList\<close>;
  \<^verbatim>\<open>due: string | null\<close> is an option. The card that \<^verbatim>\<open>getCardsDueWithin\<close> returns is
  \<^verbatim>\<open>{...card, status, members}\<close>, the record extended by two fields.
\<close>

record TrelloLabel =
  labelId :: string
  labelName :: string
  labelColor :: string

record TrelloCard =
  cardId :: string
  cardName :: string
  cardDesc :: string
  cardDue :: "string option"
  cardDueComplete :: bool
  cardIdBoard :: string
  cardIdList :: string
  cardLabels :: "TrelloLabel list"

record EnhancedCard = TrelloCard +
  cardStatus :: jsvalue
  cardMembers :: "json list"

record TrelloBoard =
  boardId :: string
  boardName :: string
  boardShortUrl :: string

record TrelloList =
  listId :: string
  listName :: string
  listIdBoard :: string

text \<open>
  The body that \<^verbatim>\<open>createCard\<close> posts. \<open>postDue\<close> is the instant whose ISO rendering
  (\<^verbatim>\<open>toISOString()\<close>) is sent, \<open>None\<close> when \<^verbatim>\<open>due\<close> is undefined and the key is left out.
\<close>

record CardPost =
  postIdList :: string
  postName :: json
  postDesc :: string
  postDue :: "int option"

text \<open>
  The remote service as this connector sees it, one answer per request the connector
  sends: the boards of the member, the lists of a board, the cards of a list, the
  cards of a board, and the creation of a card.
\<close>

record trelloApi =
  boardsAnswer :: "TrelloBoard list response"
  listsAnswer :: "string \<Rightarrow> TrelloList list response"
  listCardsAnswer :: "string \<Rightarrow> TrelloCard list response"
  boardCardsAnswer :: "string \<Rightarrow> TrelloCard list response"
  createCardAnswer :: "CardPost \<Rightarrow> TrelloCard response"

definition fetchFromTrello :: "'a response \<Rightarrow> error + 'a" where
  "fetchFromTrello r = readResponse ''Trello API error'' r"

definition getBoards :: "trelloApi \<Rightarrow> error + TrelloBoard list" where
  "getBoards api = catchWith [] (fetchFromTrello (boardsAnswer api))"

definition getLists :: "trelloApi \<Rightarrow> string \<Rightarrow> error + TrelloList list" where
  "getLists api board = catchWith [] (fetchFromTrello (listsAnswer api board))"

definition getCardsOnList :: "trelloApi \<Rightarrow> string \<Rightarrow> error + TrelloCard list" where
  "getCardsOnList api lst = catchWith [] (fetchFromTrello (listCardsAnswer api lst))"

text \<open>
  The first loop of \<^verbatim>\<open>getCardsDueWithin\<close> fills the plain object \<^verbatim>\<open>boardLists\<close>:
  \<^verbatim>\<open>boardLists[board.id] = {}\<close> and then \<^verbatim>\<open>boardLists[board.id][list.id] = list.name\<close>
  for every list. An assignment under any key makes an own property, except under
  the key \<^verbatim>\<open>__proto__\<close>: there an object becomes the prototype, and a string is ignored.
  So the state is the own properties, each the names of the lists of a board, and the
  prototype when a board with that id has replaced it.
\<close>

record boardLists =
  ownBoards :: "string \<rightharpoonup> (string \<rightharpoonup> string)"
  replacedPrototype :: "(string \<rightharpoonup> string) option"

definition listNames :: "TrelloList list \<Rightarrow> (string \<rightharpoonup> string)" where
  "listNames ls =
     fold (\<lambda>l m. if listId l = ''__proto__'' then m else m(listId l \<mapsto> listName l)) ls Map.empty"

definition emptyBoardLists :: boardLists where
  "emptyBoardLists = \<lparr> ownBoards = Map.empty, replacedPrototype = None \<rparr>"

fun buildBoardLists :: "trelloApi \<Rightarrow> TrelloBoard list \<Rightarrow> boardLists \<Rightarrow> error + boardLists" where
  "buildBoardLists api [] bl = Inr bl"
| "buildBoardLists api (b # bs) bl =
     bindE (getLists api (boardId b))
       (\<lambda>ls. buildBoardLists api bs
          (if boardId b = ''__proto__'' then bl \<lparr> replacedPrototype := Some (listNames ls) \<rparr>
           else bl \<lparr> ownBoards := (ownBoards bl)(boardId b \<mapsto> listNames ls) \<rparr>))"

text \<open>
  Reading a key: \<open>namesGet\<close> reads it from an object of list names, whose own
  properties come before what \<^verbatim>\<open>Object.prototype\<close> gives; \<open>boardListsGet\<close> is
  \<^verbatim>\<open>boardLists[k]\<close>, either the object of the list names of a board or another value,
  which is inherited.
\<close>

definition namesGet :: "engine \<Rightarrow> (string \<rightharpoonup> string) \<Rightarrow> string \<Rightarrow> jsvalue" where
  "namesGet eng names k =
     (if k = ''__proto__'' then objectPrototype eng k
      else (case names k of None \<Rightarrow> objectPrototype eng k | Some n \<Rightarrow> Plain (JStr n)))"

definition boardListsGet :: "engine \<Rightarrow> boardLists \<Rightarrow> string \<Rightarrow> (string \<rightharpoonup> string) + jsvalue" where
  "boardListsGet eng bl k =
     (if k = ''__proto__'' then
        (case replacedPrototype bl of
           None \<Rightarrow> Inr (objectPrototype eng k)
         | Some names \<Rightarrow> Inl names)
      else
        (case ownBoards bl k of
           Some names \<Rightarrow> Inl names
         | None \<Rightarrow>
             (case replacedPrototype bl of
                None \<Rightarrow> Inr (objectPrototype eng k)
              | Some names \<Rightarrow> Inr (namesGet eng names k))))"

text \<open>\<^verbatim>\<open>boardLists[card.idBoard]?.[card.idList] || 'Unknown'\<close> and the enhanced card.\<close>

definition statusOf :: "engine \<Rightarrow> boardLists \<Rightarrow> TrelloCard \<Rightarrow> jsvalue" where
  "statusOf eng bl c =
     (let listName =
            (case boardListsGet eng bl (cardIdBoard c) of
               Inl names \<Rightarrow> namesGet eng names (cardIdList c)
             | Inr v \<Rightarrow> if nullishValue v then Plain JUndefined
                        else memberOf eng v (cardIdList c))
      in if truthyValue listName then listName else Plain (JStr ''Unknown''))"

definition enhance :: "engine \<Rightarrow> boardLists \<Rightarrow> TrelloCard \<Rightarrow> EnhancedCard" where
  "enhance eng bl c = TrelloCard.extend c (EnhancedCard.fields (statusOf eng bl c) [])"

text \<open>The second loop: the cards of every board, enhanced and appended in board order.\<close>

fun collectCards ::
  "engine \<Rightarrow> trelloApi \<Rightarrow> boardLists \<Rightarrow> TrelloBoard list \<Rightarrow> EnhancedCard list
     \<Rightarrow> error + EnhancedCard list" where
  "collectCards eng api bl [] allCards = Inr allCards"
| "collectCards eng api bl (b # bs) allCards =
     bindE (fetchFromTrello (boardCardsAnswer api (boardId b)))
       (\<lambda>boardCards. collectCards eng api bl bs (allCards @ map (enhance eng bl) boardCards))"

text \<open>
  The filter of \<^verbatim>\<open>getCardsDueWithin\<close>: \<^verbatim>\<open>!card.due\<close> rejects null and the empty string;
  a comparison with an Invalid Date is false.
\<close>

definition dueBetween :: "engine \<Rightarrow> int \<Rightarrow> date \<Rightarrow> 'a TrelloCard_scheme \<Rightarrow> bool" where
  "dueBetween eng now futureDate c =
     (case cardDue c of
        None \<Rightarrow> False
      | Some s \<Rightarrow>
          if s = [] then False
          else (case parseDate eng s of
                  None \<Rightarrow> False
                | Some t \<Rightarrow> now \<le> t \<and> (case futureDate of None \<Rightarrow> False | Some f \<Rightarrow> t \<le> f)))"

text \<open>
  \<^verbatim>\<open>getCardsDueWithin(days)\<close>. \<open>now\<close> and \<open>now'\<close> are the clock readings of the two
  \<^verbatim>\<open>new Date()\<close>; the second one becomes \<^verbatim>\<open>futureDate\<close> by
  \<^verbatim>\<open>setDate(now.getDate() + days)\<close>. \<open>days\<close> is a whole number.
\<close>

definition getCardsDueWithin ::
  "engine \<Rightarrow> trelloApi \<Rightarrow> int \<Rightarrow> int \<Rightarrow> int \<Rightarrow> error + EnhancedCard list" where
  "getCardsDueWithin eng api now now' days =
     catchWith []
       (bindE (getBoards api) (\<lambda>boards.
          if length boards = 0 then Inr []
          else
            bindE (buildBoardLists api boards emptyBoardLists) (\<lambda>bl.
            bindE (collectCards eng api bl boards []) (\<lambda>allCards.
              let futureDate = setDate eng (Some now') (getDate eng now + days)
              in Inr (filter (dueBetween eng now futureDate) allCards)))))"

text \<open>
  \<^verbatim>\<open>createCard(listId, card)\<close>: a rejected request and an answer that is not ok are
  caught inside the method, which returns null. \<^verbatim>\<open>return response.json()\<close> hands the
  promise of the body out of the \<^verbatim>\<open>try\<close> block without awaiting it, so a body that is
  not JSON rejects the call itself.
\<close>

definition createCard ::
  "trelloApi \<Rightarrow> string \<Rightarrow> json \<Rightarrow> string option \<Rightarrow> int option \<Rightarrow> error + TrelloCard option" where
  "createCard api lst name desc due =
     (case createCardAnswer api
             \<lparr> postIdList = lst, postName = name, postDesc = strOr desc [], postDue = due \<rparr> of
        Rejected \<Rightarrow> catchWith None (Inl FetchRejected)
      | Response status statusText body \<Rightarrow>
          if \<not> ok status
          then catchWith None (Inl (HttpError ''Failed to create card'' status statusText))
          else (case body of None \<Rightarrow> Inl SyntaxError | Some c \<Rightarrow> Inr (Some c)))"

section \<open>The notes connector\<close>

record notionRequest =
  reqEndpoint :: string
  reqMethod :: string
  reqBody :: "json option"

type_synonym notionApi = "notionRequest \<Rightarrow> json response"

text \<open>\<^verbatim>\<open>fetchFromNotion(endpoint, method, body)\<close>: the body is sent when it is truthy.\<close>

definition fetchFromNotion :: "notionApi \<Rightarrow> string \<Rightarrow> string \<Rightarrow> json \<Rightarrow> error + json" where
  "fetchFromNotion api endpoint method body =
     readResponse ''Notion API error''
       (api \<lparr> reqEndpoint = endpoint, reqMethod = method,
              reqBody = (if truthy body then Some body else None) \<rparr>)"

record NotionPage =
  pageId :: json
  pageTitle :: json
  pageIcon :: json
  pageLastEditedTime :: json
  pageUrl :: json

text \<open>\<^verbatim>\<open>arr.map((t) => t.plain_text || '').join('')\<close>, for a value known to be an array.\<close>

definition plainTexts :: "engine \<Rightarrow> json \<Rightarrow> error + json" where
  "plainTexts eng arr =
     bindE (arrayMap (\<lambda>t. bindE (getProp t ''plain_text'') (\<lambda>p. Inr (orElse p (JStr [])))) arr)
       (\<lambda>parts. Inr (JStr (joinEmpty eng parts)))"

text \<open>The branch \<^verbatim>\<open>if (titleProperty) { ... }\<close>: the title array, else the rich-text array.\<close>

definition titleOfProperty :: "engine \<Rightarrow> json \<Rightarrow> json \<Rightarrow> error + json" where
  "titleOfProperty eng titleProperty title =
     (if truthy (field titleProperty ''title'') \<and> isArray (field titleProperty ''title'')
      then plainTexts eng (field titleProperty ''title'')
      else if truthy (field titleProperty ''rich_text'') \<and> isArray (field titleProperty ''rich_text'')
      then plainTexts eng (field titleProperty ''rich_text'')
      else Inr title)"

text \<open>
  The loop \<^verbatim>\<open>for (const prop of propertyValues)\<close>: the first property with a non-empty
  title array or a non-empty rich-text array gives the title and ends the loop.
\<close>

definition nonEmptyArray :: "json \<Rightarrow> bool" where
  "nonEmptyArray v = (truthy v \<and> isArray v \<and> v \<noteq> JArr [])"

fun scanProperties :: "engine \<Rightarrow> json list \<Rightarrow> json \<Rightarrow> error + json" where
  "scanProperties eng [] title = Inr title"
| "scanProperties eng (prop # rest) title =
     bindE (getProp prop ''title'') (\<lambda>t.
       if nonEmptyArray t then plainTexts eng t
       else if nonEmptyArray (field prop ''rich_text'') then plainTexts eng (field prop ''rich_text'')
       else scanProperties eng rest title)"

definition namedTitle :: "json \<Rightarrow> json" where
  "namedTitle props =
     orElse (field props ''title'')
       (orElse (field props ''Title'') (orElse (field props ''Name'') (field props ''name'')))"

definition childPageTitle :: "json \<Rightarrow> json \<Rightarrow> json" where
  "childPageTitle page title =
     (if truthy (field page ''child_page'') \<and> truthy (field (field page ''child_page'') ''title'')
      then field (field page ''child_page'') ''title'' else title)"

text \<open>
  The body of the \<^verbatim>\<open>try\<close> block in the page callback of \<^verbatim>\<open>getRecentPages\<close>: a property
  named title, Title, Name or name, else the first property whose \<^verbatim>\<open>type\<close> is
  \<^verbatim>\<open>'title'\<close>; without such a property the loop over all properties; at the end the
  title of a \<^verbatim>\<open>child_page\<close>. The title starts as \<^verbatim>\<open>'Untitled'\<close>.
\<close>

definition extractTitleRecent :: "engine \<Rightarrow> json \<Rightarrow> error + json" where
  "extractTitleRecent eng page =
     bindE (getProp page ''properties'') (\<lambda>props.
     bindE
       (if truthy props then
          bindE
            (if truthy (namedTitle props) then Inr (namedTitle props)
             else bindE (objectValues props)
                    (findE (\<lambda>p. bindE (getProp p ''type'') (\<lambda>t. Inr (t = JStr ''title'')))))
            (\<lambda>titleProperty.
               if truthy titleProperty then titleOfProperty eng titleProperty (JStr ''Untitled'')
               else bindE (objectValues props)
                      (\<lambda>propertyValues. scanProperties eng propertyValues (JStr ''Untitled'')))
        else Inr (JStr ''Untitled''))
       (\<lambda>title. Inr (childPageTitle page title)))"

text \<open>The same block in the page callback of \<^verbatim>\<open>searchPages\<close>.\<close>

definition extractTitleSearch :: "engine \<Rightarrow> json \<Rightarrow> error + json" where
  "extractTitleSearch eng page =
     bindE (getProp page ''properties'') (\<lambda>props.
     bindE
       (if truthy props then
          (if truthy (namedTitle props) then titleOfProperty eng (namedTitle props) (JStr ''Untitled'')
           else bindE (objectValues props)
                  (\<lambda>propertyValues. scanProperties eng propertyValues (JStr ''Untitled'')))
        else Inr (JStr ''Untitled''))
       (\<lambda>title. Inr (childPageTitle page title)))"

text \<open>
  The page callback: the \<^verbatim>\<open>catch\<close> block replaces the title by
  \<^verbatim>\<open>`Page ${page.id.substring(0, 8)}`\<close>, which throws in turn when \<^verbatim>\<open>page\<close> is null or
  \<^verbatim>\<open>page.id\<close> is not a string; then the page object is built.
\<close>

fun substring08 :: "json \<Rightarrow> error + string" where
  "substring08 (JStr s) = Inr (take 8 s)"
| "substring08 v = Inl TypeError"

definition normalizePage :: "(json \<Rightarrow> error + json) \<Rightarrow> json \<Rightarrow> error + NotionPage" where
  "normalizePage extract page =
     bindE
       (case extract page of
          Inr title \<Rightarrow> Inr title
        | Inl err \<Rightarrow>
            bindE (getProp page ''id'') (\<lambda>i.
            bindE (substring08 i) (\<lambda>s. Inr (JStr (''Page '' @ s)))))
       (\<lambda>title.
          bindE (getProp page ''id'') (\<lambda>i.
            Inr \<lparr> pageId = i, pageTitle = title, pageIcon = field page ''icon'',
                  pageLastEditedTime = field page ''last_edited_time'',
                  pageUrl = field page ''url'' \<rparr>))"

definition sortNewestFirst :: json where
  "sortNewestFirst =
     JObj [(''direction'', JStr ''descending''), (''timestamp'', JStr ''last_edited_time'')]"

text \<open>\<^verbatim>\<open>v[0]\<close>.\<close>

fun firstElement :: "json \<Rightarrow> error + json" where
  "firstElement (JArr xs) = Inr (case xs of [] \<Rightarrow> JUndefined | x # _ \<Rightarrow> x)"
| "firstElement (JStr s) = Inr (case s of [] \<Rightarrow> JUndefined | c # _ \<Rightarrow> JStr [c])"
| "firstElement (JObj kvs) = Inr (field (JObj kvs) ''0'')"
| "firstElement JUndefined = Inl TypeError"
| "firstElement JNull = Inl TypeError"
| "firstElement v = Inr JUndefined"

text \<open>
  \<^verbatim>\<open>getRecentPages(limit)\<close>. The two log statements read \<^verbatim>\<open>data.object\<close> and
  \<^verbatim>\<open>data.results[0].id\<close>, which throw on a null \<^verbatim>\<open>data\<close> or first result. Any
  exception that reaches the outer \<^verbatim>\<open>catch\<close> makes the result empty.
\<close>

definition getRecentPages :: "engine \<Rightarrow> notionApi \<Rightarrow> nat \<Rightarrow> error + NotionPage list" where
  "getRecentPages eng api limit =
     catchWith []
       (bindE (fetchFromNotion api ''/search'' ''POST''
                 (JObj [(''sort'', sortNewestFirst), (''page_size'', JNum (real limit))])) (\<lambda>data.
        bindE (getProp data ''object'') (\<lambda>logged.
          if \<not> truthy (field data ''results'') \<or> field (field data ''results'') ''length'' = JNum 0
          then Inr []
          else
            bindE (firstElement (field data ''results'')) (\<lambda>first.
            bindE (getProp first ''id'') (\<lambda>logged'.
              arrayMap (normalizePage (extractTitleRecent eng)) (field data ''results''))))))"

text \<open>\<^verbatim>\<open>searchPages(query)\<close>.\<close>

definition searchPages :: "engine \<Rightarrow> notionApi \<Rightarrow> string \<Rightarrow> error + NotionPage list" where
  "searchPages eng api query =
     catchWith []
       (bindE (fetchFromNotion api ''/search'' ''POST''
                 (JObj [(''query'', JStr query), (''page_size'', JNum 10),
                        (''sort'', sortNewestFirst)])) (\<lambda>data.
        bindE (getProp data ''results'') (\<lambda>results.
          if \<not> truthy results \<or> field results ''length'' = JNum 0
          then Inr []
          else arrayMap (normalizePage (extractTitleSearch eng)) results)))"

text \<open>
  \<^verbatim>\<open>createPage(title, parentId)\<close>: the check of the parent and the request are inside
  the \<^verbatim>\<open>try\<close> block, whose \<^verbatim>\<open>catch\<close> logs the error and returns null.
\<close>

definition createPageBody :: "string \<Rightarrow> string \<Rightarrow> json" where
  "createPageBody title parentId =
     JObj [(''parent'', JObj [(''page_id'', JStr parentId)]),
           (''properties'',
            JObj [(''title'',
              JObj [(''title'',
                JArr [JObj [(''text'', JObj [(''content'', JStr title)])]])])])]"

definition createPage :: "notionApi \<Rightarrow> string \<Rightarrow> string option \<Rightarrow> error + NotionPage option" where
  "createPage api title parentId =
     catchWith None
       (if strOr parentId [] = []
        then Inl (Error ''Parent ID is required to create a Notion page'')
        else
          bindE (fetchFromNotion api ''/pages'' ''POST'' (createPageBody title (strOr parentId [])))
            (\<lambda>data.
          bindE (getProp data ''id'') (\<lambda>i.
            Inr (Some \<lparr> pageId = i, pageTitle = JStr title, pageIcon = JUndefined,
                        pageLastEditedTime = field data ''last_edited_time'',
                        pageUrl = field data ''url'' \<rparr>))))"

text \<open>
  \<^verbatim>\<open>getPageContent(pageId)\<close>: two requests, then every block reduced to its id, type,
  typed content, plain text and has-children flag. The \<^verbatim>\<open>catch\<close> block rethrows.
\<close>

definition blockText :: "engine \<Rightarrow> json \<Rightarrow> error + json" where
  "blockText eng content =
     (if nullish (optProp content ''rich_text'') then Inr (JStr [])
      else bindE (plainTexts eng (optProp content ''rich_text''))
             (\<lambda>text. Inr (orElse text (JStr []))))"

definition processBlock :: "engine \<Rightarrow> json \<Rightarrow> error + json" where
  "processBlock eng block =
     bindE (getProp block ''type'') (\<lambda>blockType.
       let content = field block (keyOf eng blockType)
       in bindE (blockText eng content) (\<lambda>text.
            Inr (JObj [(''id'', field block ''id''), (''type'', blockType), (''content'', content),
                       (''text'', text), (''has_children'', field block ''has_children'')])))"

definition getPageContent :: "engine \<Rightarrow> notionApi \<Rightarrow> string \<Rightarrow> error + json" where
  "getPageContent eng api pid =
     bindE (fetchFromNotion api (''/pages/'' @ pid) ''GET'' JUndefined) (\<lambda>pageData.
     bindE (fetchFromNotion api (''/blocks/'' @ pid @ ''/children'') ''GET'' JUndefined)
       (\<lambda>blocksData.
     bindE (getProp blocksData ''results'') (\<lambda>results.
     bindE (arrayMap (processBlock eng) (orElse results (JArr []))) (\<lambda>processedBlocks.
       Inr (JObj [(''page'', pageData), (''blocks'', JArr processedBlocks)])))))"

section \<open>The mail connector and the composer\<close>

text \<open>
  The remote mail service answers a GET on an endpoint. \<^verbatim>\<open>fetchFromGmail\<close> throws before
  any request when the connector has no token.
\<close>

type_synonym gmailApi = "string \<Rightarrow> json response"

definition fetchFromGmail :: "GmailConnector \<Rightarrow> gmailApi \<Rightarrow> string \<Rightarrow> error + json" where
  "fetchFromGmail conn api endpoint =
     (if gmailToken conn = [] then Inl (Error ''Gmail API token is required'')
      else readResponse ''Gmail API error'' (api endpoint))"

record GmailMessage =
  msgId :: json
  msgFrom :: json
  msgSubject :: json
  msgSnippet :: json
  msgPayload :: json
  msgInternalDate :: json
  msgLabelIds :: json

text \<open>
  \<^verbatim>\<open>message.payload?.headers?.find((h) => h.name.toLowerCase() === name)?.value || ''\<close>:
  the callback throws on a header that is null or whose name is not a string, and
  \<^verbatim>\<open>.find\<close> on headers that are not an array.
\<close>

definition headerNamed :: "string \<Rightarrow> json \<Rightarrow> error + bool" where
  "headerNamed name h =
     bindE (getProp h ''name'') (\<lambda>n.
       case n of JStr s \<Rightarrow> Inr (toLowerCase s = name) | _ \<Rightarrow> Inl TypeError)"

definition headerValue :: "json \<Rightarrow> string \<Rightarrow> error + json" where
  "headerValue message name =
     bindE (getProp message ''payload'') (\<lambda>payload.
       if nullish (optProp payload ''headers'') then Inr (JStr [])
       else bindE (arrayFind (headerNamed name) (optProp payload ''headers''))
              (\<lambda>found. Inr (orElse (optProp found ''value'') (JStr []))))"

definition processMessage :: "json \<Rightarrow> error + GmailMessage" where
  "processMessage message =
     bindE (headerValue message ''from'') (\<lambda>sender.
     bindE (headerValue message ''subject'') (\<lambda>subject.
       Inr \<lparr> msgId = field message ''id'',
             msgFrom = sender,
             msgSubject = subject,
             msgSnippet = orElse (field message ''snippet'') (JStr []),
             msgPayload = orElse (field message ''payload'') (JObj [(''headers'', JArr [])]),
             msgInternalDate = orElse (field message ''internalDate'') (JStr []),
             msgLabelIds = orElse (field message ''labelIds'') (JArr []) \<rparr>))"

text \<open>\<^verbatim>\<open>snippet.match(pattern)\<close>: a TypeError when the snippet is not a string.\<close>

definition snippetMatch :: "rx \<Rightarrow> json \<Rightarrow> error + string option" where
  "snippetMatch r snippet =
     (case snippet of JStr s \<Rightarrow> Inr (matchFirst r s) | _ \<Rightarrow> Inl TypeError)"

text \<open>
  The due date of the composer: the date match goes through \<^verbatim>\<open>new Date\<close>; with a time
  match the hour and the minute are parsed from the parts around the colon, 12 is
  added to an hour below 12 when the match contains pm, and \<^verbatim>\<open>setHours\<close> puts them;
  \<^verbatim>\<open>toISOString\<close> throws a RangeError on an Invalid Date. The result is the instant
  of the ISO string, \<open>None\<close> for an undefined \<^verbatim>\<open>dueDate\<close>.
\<close>

definition timeOfDay :: "string \<Rightarrow> int option \<times> int option" where
  "timeOfDay tm =
     (let timeParts = splitOn CHR '':'' tm;
          hours = parseInt (partAt timeParts 0);
          minutes = parseInt (partAt timeParts 1)
      in (case hours of
            None \<Rightarrow> (None, minutes)
          | Some h \<Rightarrow>
              if includesStr (toLowerCase tm) ''pm'' \<and> h < 12 then (Some (h + 12), minutes)
              else (Some h, minutes)))"

definition composeDueDate :: "engine \<Rightarrow> string option \<Rightarrow> string option \<Rightarrow> error + int option" where
  "composeDueDate eng dateMatch timeMatch =
     (case dateMatch of
        None \<Rightarrow> Inr None
      | Some dm \<Rightarrow>
          (let date = parseDate eng dm;
               date' = (case timeMatch of
                          None \<Rightarrow> date
                        | Some tm \<Rightarrow> setHours eng date (fst (timeOfDay tm)) (snd (timeOfDay tm)))
           in case date' of None \<Rightarrow> Inl RangeError | Some t \<Rightarrow> Inr (Some t)))"

text \<open>The string conversion of a template literal and the description of the card.\<close>

definition newline :: string where
  "newline = [CHR 0x0A]"

definition describeEmail :: "engine \<Rightarrow> GmailMessage \<Rightarrow> string \<Rightarrow> int option \<Rightarrow> string" where
  "describeEmail eng email instruction dueDate =
     ''Re: '' @ keyOf eng (orElse (msgSubject email) (JStr ''No Subject'')) @ newline @
     ''From: '' @ keyOf eng (orElse (msgFrom email) (JStr ''Unknown'')) @ newline @
     (if instruction \<noteq> [] then ''Action: '' @ instruction @ newline else []) @
     (case dueDate of None \<Rightarrow> [] | Some t \<Rightarrow> ''Due: '' @ toLocaleString eng t)"

text \<open>
  \<^verbatim>\<open>createTrelloCardFromEmail(emailId, trelloConnector, listId)\<close>: the body of the
  \<^verbatim>\<open>try\<close> block, and the method with its \<^verbatim>\<open>catch\<close>, which returns null.
\<close>

definition composeCard ::
  "engine \<Rightarrow> GmailConnector \<Rightarrow> gmailApi \<Rightarrow> trelloApi \<Rightarrow> string \<Rightarrow> string
     \<Rightarrow> error + TrelloCard option" where
  "composeCard eng conn api trello emailId lst =
     bindE (fetchFromGmail conn api (''/users/me/messages/'' @ emailId)) (\<lambda>email.
     bindE (processMessage email) (\<lambda>processedEmail.
     bindE (snippetMatch datePattern (msgSnippet processedEmail)) (\<lambda>dateMatch.
     bindE (snippetMatch timePattern (msgSnippet processedEmail)) (\<lambda>timeMatch.
     bindE (composeDueDate eng dateMatch timeMatch) (\<lambda>dueDate.
     bindE (snippetMatch instructionPattern (msgSnippet processedEmail)) (\<lambda>instructionMatch.
       let instruction = (case instructionMatch of None \<Rightarrow> [] | Some i \<Rightarrow> i)
       in createCard trello lst
            (orElse (msgSubject processedEmail) (JStr ''No Subject''))
            (Some (describeEmail eng processedEmail instruction dueDate))
            dueDate))))))"

definition createTrelloCardFromEmail ::
  "engine \<Rightarrow> GmailConnector \<Rightarrow> gmailApi \<Rightarrow> trelloApi \<Rightarrow> string \<Rightarrow> string
     \<Rightarrow> error + TrelloCard option" where
  "createTrelloCardFromEmail eng conn api trello emailId lst =
     catchWith None (composeCard eng conn api trello emailId lst)"

section \<open>The due-date window as the specification words it\<close>

text \<open>
  A card is in the window from \<open>lo\<close> to \<open>hi\<close> when its due timestamp is present,
  parses as a valid instant, and lies in the closed interval between them; no card is
  in a window whose end is not a valid date. \<open>plusLocalDays eng t n\<close> is the instant
  \<open>n\<close> calendar days after \<open>t\<close> at the same local time of day, if it is in the range
  of dates.
\<close>

definition dueInWindow :: "engine \<Rightarrow> int \<Rightarrow> date \<Rightarrow> TrelloCard \<Rightarrow> bool" where
  "dueInWindow eng lo hi c =
     (case cardDue c of
        None \<Rightarrow> False
      | Some s \<Rightarrow>
          (case parseDate eng s of
             None \<Rightarrow> False
           | Some t \<Rightarrow> lo \<le> t \<and> (case hi of None \<Rightarrow> False | Some h \<Rightarrow> t \<le> h)))"

definition plusLocalDays :: "engine \<Rightarrow> int \<Rightarrow> int \<Rightarrow> date" where
  "plusLocalDays eng t n = timeClip (utcTime eng (localTime eng t + n * msPerDay))"

definition localDay :: "engine \<Rightarrow> int \<Rightarrow> int" where
  "localDay eng t = localTime eng t div msPerDay"

section \<open>Pages without a recognizable title, as the specification words it\<close>

text \<open>
  \<open>propertyValuesOf\<close> lists the values of the properties of a page. A page has no
  recognizable title property when none of its properties is named title, Title, Name
  or name, none has the type title or carries a non-empty title or rich-text array,
  and the page has no child-page title.
\<close>

definition propertyValuesOf :: "json \<Rightarrow> json list" where
  "propertyValuesOf page =
     (case objectValues (field page ''properties'') of Inl e \<Rightarrow> [] | Inr vs \<Rightarrow> vs)"

definition noTitleProperty :: "json \<Rightarrow> bool" where
  "noTitleProperty page =
     (field (field page ''properties'') ''title'' = JUndefined \<and>
      field (field page ''properties'') ''Title'' = JUndefined \<and>
      field (field page ''properties'') ''Name'' = JUndefined \<and>
      field (field page ''properties'') ''name'' = JUndefined \<and>
      list_all (\<lambda>p. field p ''type'' \<noteq> JStr ''title'' \<and>
                     \<not> nonEmptyArray (field p ''title'') \<and>
                     \<not> nonEmptyArray (field p ''rich_text''))
        (propertyValuesOf page) \<and>
      \<not> truthy (field (field page ''child_page'') ''title''))"

text \<open>
  A page makes its callback throw when it is null, or when the extraction of its
  title throws and its identifier is not a string.
\<close>

definition callbackThrows :: "(json \<Rightarrow> error + json) \<Rightarrow> json \<Rightarrow> bool" where
  "callbackThrows extract page =
     (nullish page \<or>
      (case extract page of
         Inr title \<Rightarrow> False
       | Inl err \<Rightarrow> (case field page ''id'' of JStr s \<Rightarrow> False | _ \<Rightarrow> True)))"

section \<open>Example data\<close>

text \<open>
  An engine whose clock is at 2024-01-01T00:00:00Z and whose local time is UTC: it
  parses three ISO strings and the date 1/2/2024. Of the built-in objects it has the
  properties of \<^verbatim>\<open>Object.prototype\<close> and the name and the prototype of \<^verbatim>\<open>Object\<close>,
  and of a string its length. The task-board service has two boards; the first
  holds a card due at that instant, a card without due date and a card whose due
  date does not parse, the second a completed card due exactly seven days later and
  a card due one millisecond after that. A created card comes back with the due date that was
  posted, written out for the two instants used below.
\<close>

definition exampleObjectPrototype :: "string \<Rightarrow> jsvalue" where
  "exampleObjectPrototype k =
     (if k = ''constructor'' then Builtin ''Object''
      else if k = ''__proto__'' then Builtin ''Object.prototype''
      else if k \<in> set [''hasOwnProperty'', ''isPrototypeOf'', ''propertyIsEnumerable'',
                         ''toLocaleString'', ''toString'', ''valueOf'', ''__defineGetter__'',
                         ''__defineSetter__'', ''__lookupGetter__'', ''__lookupSetter__'']
      then Builtin (''Object.prototype.'' @ k)
      else Plain JUndefined)"

definition exampleMemberOf :: "jsvalue \<Rightarrow> string \<Rightarrow> jsvalue" where
  "exampleMemberOf v k =
     (case v of
        Plain w \<Rightarrow> Plain (field w k)
      | Builtin b \<Rightarrow>
          if b = ''Object.prototype''
          then (if k = ''__proto__'' then Plain JNull else exampleObjectPrototype k)
          else if b = ''Object'' \<and> k = ''name'' then Plain (JStr ''Object'')
          else if b = ''Object'' \<and> k = ''prototype'' then Builtin ''Object.prototype''
          else Plain JUndefined)"

definition exampleEngine :: engine where
  "exampleEngine =
     \<lparr> parseDate = (\<lambda>s. if s = ''2024-01-01T00:00:00.000Z'' then Some 1704067200000
                        else if s = ''2024-01-08T00:00:00.000Z'' then Some 1704672000000
                        else if s = ''2024-01-08T00:00:00.001Z'' then Some 1704672000001
                        else if s = ''1/2/2024'' then Some 1704153600000
                        else None),
       localTZA = (\<lambda>t isUTC. 0),
       tzOffset = 0,
       objectPrototype = exampleObjectPrototype,
       memberOf = exampleMemberOf,
       toStr = (\<lambda>v. ''[object Object]''),
       toLocaleString = (\<lambda>t. ''(date)'') \<rparr>"

definition exampleCard :: "string \<Rightarrow> string \<Rightarrow> string option \<Rightarrow> bool \<Rightarrow> TrelloCard" where
  "exampleCard i board due done =
     \<lparr> cardId = i, cardName = ''Task'', cardDesc = '''', cardDue = due, cardDueComplete = done,
       cardIdBoard = board, cardIdList = ''list-1'', cardLabels = [] \<rparr>"

definition exampleBoards :: "TrelloBoard list" where
  "exampleBoards =
     [\<lparr> boardId = ''board-1'', boardName = ''Home'', boardShortUrl = ''https://trello.com/b/1'' \<rparr>,
      \<lparr> boardId = ''board-2'', boardName = ''Work'', boardShortUrl = ''https://trello.com/b/2'' \<rparr>]"

definition exampleCardsOf :: "TrelloBoard \<Rightarrow> TrelloCard list" where
  "exampleCardsOf b =
     (if boardId b = ''board-1''
      then [exampleCard ''a'' ''board-1'' (Some ''2024-01-01T00:00:00.000Z'') False,
            exampleCard ''b'' ''board-1'' None False,
            exampleCard ''c'' ''board-1'' (Some ''soon'') False]
      else [exampleCard ''d'' ''board-2'' (Some ''2024-01-08T00:00:00.000Z'') True,
            exampleCard ''e'' ''board-2'' (Some ''2024-01-08T00:00:00.001Z'') False])"

definition exampleTrello :: trelloApi where
  "exampleTrello =
     \<lparr> boardsAnswer = Response 200 ''OK'' (Some exampleBoards),
       listsAnswer = (\<lambda>b. Response 200 ''OK''
          (Some [\<lparr> listId = ''list-1'', listName = ''To Do'', listIdBoard = b \<rparr>])),
       listCardsAnswer = (\<lambda>l. Response 200 ''OK'' (Some [])),
       boardCardsAnswer = (\<lambda>b. Response 200 ''OK''
          (Some (exampleCardsOf \<lparr> boardId = b, boardName = '''', boardShortUrl = '''' \<rparr>))),
       createCardAnswer = (\<lambda>p. Response 200 ''OK''
          (Some \<lparr> cardId = ''new'', cardName = ''Created'', cardDesc = postDesc p,
                  cardDue = (case postDue p of
                               None \<Rightarrow> None
                             | Some t \<Rightarrow>
                                 if t = 1704205800000 then Some ''2024-01-02T14:30:00.000Z''
                                 else if t = 1704198600000 then Some ''2024-01-02T12:30:00.000Z''
                                 else Some ''later''),
                  cardDueComplete = False, cardIdBoard = ''board-1'', cardIdList = postIdList p,
                  cardLabels = [] \<rparr>)) \<rparr>"

text \<open>
  The same engine in New York in the first half of 2024: the offset is five hours
  behind UTC until 2024-03-10T07:00:00Z, when the clocks go from 2 to 3 in the
  morning, and four hours behind from then on. The clock reads noon of 2024-03-09,
  17:00 UTC. The task board has one board with two cards due at 16:30 UTC of the
  next day, 23 hours and a half later, the second of them completed.
\<close>

definition newYorkEngine :: engine where
  "newYorkEngine =
     exampleEngine
       \<lparr> parseDate := (\<lambda>s. if s = ''2024-03-10T16:30:00.000Z'' then Some 1710088200000 else None),
         localTZA := (\<lambda>t isUTC. if isUTC then (if t < 1710054000000 then - 18000000 else - 14400000)
                                 else (if t < 1710039600000 then - 18000000 else - 14400000)),
         tzOffset := - 18000000 \<rparr>"

definition newYorkCards :: "TrelloCard list" where
  "newYorkCards =
     [exampleCard ''n1'' ''board-1'' (Some ''2024-03-10T16:30:00.000Z'') False,
      exampleCard ''n2'' ''board-1'' (Some ''2024-03-10T16:30:00.000Z'') True]"

definition newYorkTrello :: trelloApi where
  "newYorkTrello =
     \<lparr> boardsAnswer = Response 200 ''OK''
         (Some [\<lparr> boardId = ''board-1'', boardName = ''Home'',
                   boardShortUrl = ''https://trello.com/b/1'' \<rparr>]),
       listsAnswer = (\<lambda>b. Response 200 ''OK''
          (Some [\<lparr> listId = ''list-1'', listName = ''To Do'', listIdBoard = b \<rparr>])),
       listCardsAnswer = (\<lambda>l. Response 200 ''OK'' (Some [])),
       boardCardsAnswer = (\<lambda>b. Response 200 ''OK'' (Some newYorkCards)),
       createCardAnswer = (\<lambda>p. Response 500 ''Internal Server Error'' None) \<rparr>"

text \<open>
  Two remotes that answer every request alike: one with status 500, one with status
  200 and an empty object as body.
\<close>

definition failingTrello :: trelloApi where
  "failingTrello =
     \<lparr> boardsAnswer = Response 500 ''Internal Server Error'' None,
       listsAnswer = (\<lambda>b. Response 500 ''Internal Server Error'' None),
       listCardsAnswer = (\<lambda>l. Response 500 ''Internal Server Error'' None),
       boardCardsAnswer = (\<lambda>b. Response 500 ''Internal Server Error'' None),
       createCardAnswer = (\<lambda>p. Response 500 ''Internal Server Error'' None) \<rparr>"

definition failingNotion :: notionApi where
  "failingNotion = (\<lambda>r. Response 500 ''Internal Server Error'' None)"

definition acceptingNotion :: notionApi where
  "acceptingNotion = (\<lambda>r. Response 200 ''OK'' (Some (JObj [])))"

text \<open>
  Example pages: a database row whose only property is a number; a row one of whose
  property values is null; such a row whose identifier is a number; a row whose title
  column is named Task and comes after a rich-text column.
\<close>

definition numberPage :: json where
  "numberPage =
     JObj [(''id'', JStr ''59833787-2cf9-4fdf-8782-e53db20768a5''),
           (''properties'', JObj [(''Count'', JObj [(''type'', JStr ''number''), (''number'', JNum 5)])]),
           (''url'', JStr ''https://www.notion.so/59833787'')]"

definition nullPropertyPage :: json where
  "nullPropertyPage =
     JObj [(''id'', JStr ''0a1b2c3d-0000-4fdf-8782-e53db20768a5''),
           (''properties'', JObj [(''Status'', JNull)])]"

definition numericIdPage :: json where
  "numericIdPage = JObj [(''id'', JNum 12345), (''properties'', JObj [(''Status'', JNull)])]"

definition taskPage :: json where
  "taskPage =
     JObj [(''id'', JStr ''7c1e5a52-1111-4fdf-8782-e53db20768a5''),
           (''properties'',
            JObj [(''Notes'', JObj [(''type'', JStr ''rich_text''),
                                    (''rich_text'', JArr [JObj [(''plain_text'', JStr ''hello'')]])]),
                  (''Task'', JObj [(''type'', JStr ''title''),
                                   (''title'', JArr [JObj [(''plain_text'', JStr ''Buy milk'')]])])])]"

definition searchAnswer :: "json list \<Rightarrow> notionApi" where
  "searchAnswer pages =
     (\<lambda>r. Response 200 ''OK'' (Some (JObj [(''object'', JStr ''list''), (''results'', JArr pages)])))"

text \<open>
  A mail service whose every message has the given snippet, a connector with a token,
  and the snippets used below.
\<close>

definition exampleMail :: "string \<Rightarrow> json" where
  "exampleMail snippet =
     JObj [(''id'', JStr ''m1''),
           (''snippet'', JStr snippet),
           (''payload'',
            JObj [(''headers'',
              JArr [JObj [(''name'', JStr ''From''), (''value'', JStr ''alice@example.com'')],
                    JObj [(''name'', JStr ''Subject''), (''value'', JStr ''Report'')]])]),
           (''internalDate'', JStr ''1704067200000''),
           (''labelIds'', JArr [JStr ''INBOX''])]"

definition exampleGmail :: "string \<Rightarrow> gmailApi" where
  "exampleGmail snippet = (\<lambda>endpoint. Response 200 ''OK'' (Some (exampleMail snippet)))"

definition exampleConnector :: GmailConnector where
  "exampleConnector = \<lparr> gmailToken = ''token'' \<rparr>"



definition undatedSnippet :: string where
  "undatedSnippet = ''Kindly call me back at 2:30pm.''"

definition exampleProcessed :: "string \<Rightarrow> GmailMessage" where
  "exampleProcessed snippet =
     \<lparr> msgId = JStr ''m1'', msgFrom = JStr ''alice@example.com'', msgSubject = JStr ''Report'',
       msgSnippet = JStr snippet,
       msgPayload =
         JObj [(''headers'',
           JArr [JObj [(''name'', JStr ''From''), (''value'', JStr ''alice@example.com'')],
                 JObj [(''name'', JStr ''Subject''), (''value'', JStr ''Report'')]])],
       msgInternalDate = JStr ''1704067200000'',
       msgLabelIds = JArr [JStr ''INBOX''] \<rparr>"

definition unparsedSnippet :: string where
  "unparsedSnippet = ''Due 99/99/9999 at 9:00''"

section \<open>Properties of the connector factory\<close>

text \<open>
  C7. For every service-type tag, \<open>createConnector\<close> compares the lower-cased tag with
  the supported types. A tag whose lower-cased form is supported always yields a
  connector instance of the matching kind, never an error; every other tag fails with
  the unsupported-type error that names the tag as it was given, and yields no connector.
\<close>

theorem createConnector_supported_or_error:
  "(toLowerCase type \<in> supportedTypes \<longrightarrow>
      (\<exists>c. createConnector ev type token = Inr c \<and>
           (toLowerCase type = ''trello'' \<longrightarrow> c = Trello (newTrelloConnector ev token)) \<and>
           (toLowerCase type = ''notion'' \<longrightarrow> c = Notion (newNotionConnector ev token)) \<and>
           (toLowerCase type = ''gmail'' \<longrightarrow> c = Gmail (newGmailConnector ev token)))) \<and>
   (toLowerCase type \<notin> supportedTypes \<longrightarrow>
      createConnector ev type token = Inl (Error (''Unsupported integration type: '' @ type)))"
  by (auto simp: createConnector_def supportedTypes_def Let_def)

theorem createConnector_supported_or_error_witness:
  "toLowerCase ''TrElLo'' \<in> supportedTypes \<and>
   createConnector Map.empty ''TrElLo'' (Some ''tok'') =
     Inr (Trello \<lparr> trelloToken = ''tok'', trelloApiKey = '''' \<rparr>) \<and>
   toLowerCase ''slack'' \<notin> supportedTypes \<and>
   createConnector Map.empty ''slack'' None = Inl (Error ''Unsupported integration type: slack'')"
proof -
  have l1: "toLowerCase ''TrElLo'' = ''trello''"
    by code_simp
  have l2: "toLowerCase ''slack'' = ''slack''"
    by code_simp
  have m1: "toLowerCase ''TrElLo'' \<in> supportedTypes"
    by (simp add: l1 supportedTypes_def)
  have m2: "toLowerCase ''slack'' \<notin> supportedTypes"
    by (simp add: l2 supportedTypes_def)
  from createConnector_supported_or_error [of "''TrElLo''" Map.empty "Some ''tok''"] m1 l1
  have a: "createConnector Map.empty ''TrElLo'' (Some ''tok'') =
             Inr (Trello (newTrelloConnector Map.empty (Some ''tok'')))"
    by auto
  from createConnector_supported_or_error [of "''slack''" Map.empty None] m2
  have b: "createConnector Map.empty ''slack'' None =
             Inl (Error (''Unsupported integration type: '' @ ''slack''))"
    by blast
  show ?thesis
    using a b m1 m2 by (simp add: newTrelloConnector_def strOr_def)
qed

section \<open>Properties of the widget store\<close>



section \<open>Properties of the task-board connector\<close>

lemma getLists_returns: "\<exists>ls. getLists api b = Inr ls"
  by (simp add: getLists_def catchWith_def split: sum.split)

lemma buildBoardLists_returns: "\<exists>bl'. buildBoardLists api bs bl = Inr bl'"
proof (induction bs arbitrary: bl)
  case Nil
  show ?case by simp
next
  case (Cons b bs)
  obtain ls where "getLists api (boardId b) = Inr ls"
    using getLists_returns by blast
  then show ?case using Cons.IH by (simp add: bindE_def)
qed

lemma collectCards_all:
  assumes "\<forall>b \<in> set bs. fetchFromTrello (boardCardsAnswer api (boardId b)) = Inr (cardsOf b)"
  shows "collectCards eng api bl bs acc =
           Inr (acc @ map (enhance eng bl) (concat (map cardsOf bs)))"
  using assms by (induction bs arbitrary: acc) (simp_all add: bindE_def)

lemma truncate_enhance: "TrelloCard.truncate (enhance eng bl c) = c"
  by (simp add: enhance_def TrelloCard.truncate_def TrelloCard.extend_def)

lemma dueBetween_enhance: "dueBetween eng now fd (enhance eng' bl c) = dueBetween eng now fd c"
  by (simp add: dueBetween_def enhance_def TrelloCard.extend_def)

lemma dueBetween_window:
  "parseDate eng [] = None \<Longrightarrow> dueBetween eng lo hi c = dueInWindow eng lo hi c"
  by (auto simp: dueBetween_def dueInWindow_def split: option.split)

lemma futureDate_sameDay:
  assumes "localDay eng now' = localDay eng now"
  shows "setDate eng (Some now') (getDate eng now + days) = plusLocalDays eng now' days"
proof -
  have "dateFromTime (localTime eng now') = dateFromTime (localTime eng now)"
    using assms unfolding dateFromTime_def localDay_def by (simp only:)
  then show ?thesis
    by (simp add: setDate_def getDate_def plusLocalDays_def)
qed

lemma plusLocalDays_sameOffset:
  assumes "localTZA eng (localTime eng t + n * msPerDay) False = localTZA eng t True"
  shows "plusLocalDays eng t n = timeClip (t + n * msPerDay)"
  using assms by (simp add: plusLocalDays_def utcTime_def localTime_def)

lemma getCardsDueWithin_fetched:
  assumes "getBoards api = Inr boards"
      and "\<forall>b \<in> set boards. fetchFromTrello (boardCardsAnswer api (boardId b)) = Inr (cardsOf b)"
  shows "\<exists>bl. getCardsDueWithin eng api now now' days =
           Inr (filter (dueBetween eng now (setDate eng (Some now') (getDate eng now + days)))
                  (map (enhance eng bl) (concat (map cardsOf boards))))"
proof (cases "boards = []")
  case True
  then show ?thesis using assms(1)
    by (simp add: getCardsDueWithin_def bindE_def catchWith_def)
next
  case False
  obtain bl where bl: "buildBoardLists api boards emptyBoardLists = Inr bl"
    using buildBoardLists_returns by blast
  have "collectCards eng api bl boards [] =
          Inr (map (enhance eng bl) (concat (map cardsOf boards)))"
    using collectCards_all [OF assms(2), of eng bl "[]"] by simp
  then show ?thesis using assms(1) False bl
    by (auto simp: getCardsDueWithin_def bindE_def catchWith_def Let_def)
qed

lemma filter_enhanced:
  assumes "parseDate eng [] = None"
  shows "map TrelloCard.truncate (filter (dueBetween eng lo hi) (map (enhance eng bl) cs)) =
         filter (dueInWindow eng lo hi) cs"
  by (induction cs)
     (simp_all add: dueBetween_enhance truncate_enhance dueBetween_window [OF assms])

lemma exampleBoards_fetched: "getBoards exampleTrello = Inr exampleBoards"
  by (simp add: getBoards_def exampleTrello_def fetchFromTrello_def readResponse_def ok_def
      catchWith_def)

lemma exampleCards_fetched:
  "\<forall>b \<in> set exampleBoards.
     fetchFromTrello (boardCardsAnswer exampleTrello (boardId b)) = Inr (exampleCardsOf b)"
  by (simp add: exampleBoards_def exampleTrello_def fetchFromTrello_def readResponse_def ok_def
      exampleCardsOf_def)

lemma exampleEngine_empty: "parseDate exampleEngine [] = None"
  by (simp add: exampleEngine_def)

lemma exampleEngine_week:
  "plusLocalDays exampleEngine 1704067200000 7 = Some 1704672000000"
  by (simp add: plusLocalDays_def utcTime_def localTime_def exampleEngine_def timeClip_def
      msPerDay_def maxTime_def)

lemma newYorkBoards_fetched:
  "getBoards newYorkTrello =
     Inr [\<lparr> boardId = ''board-1'', boardName = ''Home'', boardShortUrl = ''https://trello.com/b/1'' \<rparr>]"
  by (simp add: getBoards_def newYorkTrello_def fetchFromTrello_def readResponse_def ok_def
      catchWith_def)

lemma newYorkCards_fetched:
  "\<forall>b \<in> set [\<lparr> boardId = ''board-1'', boardName = ''Home'',
                   boardShortUrl = ''https://trello.com/b/1'' \<rparr>].
     fetchFromTrello (boardCardsAnswer newYorkTrello (boardId b)) = Inr ((\<lambda>b. newYorkCards) b)"
  by (simp add: newYorkTrello_def fetchFromTrello_def readResponse_def ok_def)

lemma newYorkEngine_empty: "parseDate newYorkEngine [] = None"
  by (simp add: newYorkEngine_def)

lemma newYorkEngine_nextDay:
  "plusLocalDays newYorkEngine 1710003600000 1 = Some (1710003600000 + 23 * msPerHour)"
  by (simp add: plusLocalDays_def utcTime_def localTime_def newYorkEngine_def timeClip_def
      msPerDay_def msPerHour_def maxTime_def)

text \<open>
  The status of a card is the name of its list on its board, Unknown when the board
  or the list is not among those fetched, and what the plain object inherits when
  the identifiers name inherited properties.
\<close>

lemma statusOf_examples:
  "statusOf exampleEngine
     \<lparr> ownBoards = [''board-1'' \<mapsto> [''list-1'' \<mapsto> ''To Do'']], replacedPrototype = None \<rparr>
     (exampleCard ''a'' ''board-1'' None False) = Plain (JStr ''To Do'') \<and>
   statusOf exampleEngine
     \<lparr> ownBoards = [''board-1'' \<mapsto> [''list-1'' \<mapsto> ''To Do'']], replacedPrototype = None \<rparr>
     (exampleCard ''a'' ''board-2'' None False) = Plain (JStr ''Unknown'') \<and>
   statusOf exampleEngine
     \<lparr> ownBoards = [''board-1'' \<mapsto> [''list-1'' \<mapsto> ''To Do'']], replacedPrototype = None \<rparr>
     (exampleCard ''a'' ''constructor'' None False \<lparr> cardIdList := ''name'' \<rparr>)
       = Plain (JStr ''Object'')"
  by code_simp

text \<open>
  C1, as claimed: in every call the cards returned are exactly those due in the closed
  interval from now to now plus \<open>days\<close> days. They are not. In New York at noon of
  2024-03-09, with \<open>days\<close> = 1, the future date is noon of the next day, which is 23
  hours later because the clocks go forward in between: a card due 23 hours and a half
  after now lies within one day of now and is not returned. With \<open>days\<close> =
  100000000 the future date is beyond the range of dates, an Invalid Date: nothing is
  returned, although a card is due exactly at now. And when the first clock reading
  is the last millisecond of December 31 and the second the first of January 1, the
  future date is January 1 put to the day 31 + 7, which is February 7: with \<open>days\<close>
  = 7 a card due on January 8, one millisecond past the seven days, is returned.
\<close>

theorem getCardsDueWithin_window_counterexample:
  "dueInWindow newYorkEngine 1710003600000 (Some (1710003600000 + 1 * msPerDay))
     (exampleCard ''n1'' ''board-1'' (Some ''2024-03-10T16:30:00.000Z'') False) \<and>
   setDate newYorkEngine (Some 1710003600000) (getDate newYorkEngine 1710003600000 + 1)
     = Some (1710003600000 + 23 * msPerHour) \<and>
   getCardsDueWithin newYorkEngine newYorkTrello 1710003600000 1710003600000 1 = Inr [] \<and>
   dueInWindow exampleEngine 1704067200000 (Some (1704067200000 + 100000000 * msPerDay))
     (exampleCard ''a'' ''board-1'' (Some ''2024-01-01T00:00:00.000Z'') False) \<and>
   setDate exampleEngine (Some 1704067200000) (getDate exampleEngine 1704067200000 + 100000000)
     = None \<and>
   getCardsDueWithin exampleEngine exampleTrello 1704067200000 1704067200000 100000000 = Inr [] \<and>
   \<not> dueInWindow exampleEngine 1704067199999 (Some (1704067200000 + 7 * msPerDay))
       (exampleCard ''e'' ''board-2'' (Some ''2024-01-08T00:00:00.001Z'') False) \<and>
   setDate exampleEngine (Some 1704067200000) (getDate exampleEngine 1704067199999 + 7)
     = Some (1704067200000 + 37 * msPerDay) \<and>
   getCardsDueWithin exampleEngine exampleTrello 1704067199999 1704067200000 7 =
     Inr (map (\<lambda>c. TrelloCard.extend c (EnhancedCard.fields (Plain (JStr ''To Do'')) []))
       [exampleCard ''a'' ''board-1'' (Some ''2024-01-01T00:00:00.000Z'') False,
        exampleCard ''d'' ''board-2'' (Some ''2024-01-08T00:00:00.000Z'') True,
        exampleCard ''e'' ''board-2'' (Some ''2024-01-08T00:00:00.001Z'') False])"
  by code_simp

text \<open>
  C1, amended. When the remote service answers the request for the cards of every
  board, and the two clock readings \<open>now\<close> and \<open>now'\<close> of the call fall on the same
  local day, the cards returned by \<open>getCardsDueWithin\<close> are exactly the upstream
  cards, board by board in upstream order, whose due timestamp is present, parses as
  a valid instant and lies in the closed interval from \<open>now\<close> to the instant \<open>days\<close>
  calendar days after \<open>now'\<close> at the same local time of day: both ends are included,
  a card whose due date is absent or does not parse is left out, and no card is
  returned when that end is beyond the range of dates. Where the offset of local
  time is the same at both ends, the end is \<open>now'\<close> plus \<open>days\<close> times 24 hours.
\<close>

theorem getCardsDueWithin_window:
  assumes "getBoards api = Inr boards"
      and "\<forall>b \<in> set boards. fetchFromTrello (boardCardsAnswer api (boardId b)) = Inr (cardsOf b)"
      and "localDay eng now' = localDay eng now"
      and "parseDate eng [] = None"
  shows "(\<exists>r. getCardsDueWithin eng api now now' days = Inr r \<and>
              map TrelloCard.truncate r =
                filter (dueInWindow eng now (plusLocalDays eng now' days))
                  (concat (map cardsOf boards))) \<and>
         (localTZA eng (localTime eng now' + days * msPerDay) False = localTZA eng now' True \<longrightarrow>
            plusLocalDays eng now' days = timeClip (now' + days * msPerDay))"
proof -
  obtain bl where r: "getCardsDueWithin eng api now now' days =
           Inr (filter (dueBetween eng now (setDate eng (Some now') (getDate eng now + days)))
                  (map (enhance eng bl) (concat (map cardsOf boards))))"
    using getCardsDueWithin_fetched [OF assms(1,2)] by blast
  have fd: "setDate eng (Some now') (getDate eng now + days) = plusLocalDays eng now' days"
    using futureDate_sameDay [OF assms(3)] .
  have "\<exists>r. getCardsDueWithin eng api now now' days = Inr r \<and>
              map TrelloCard.truncate r =
                filter (dueInWindow eng now (plusLocalDays eng now' days))
                  (concat (map cardsOf boards))"
    using r fd filter_enhanced [OF assms(4)] by simp
  then show ?thesis using plusLocalDays_sameOffset by blast
qed

theorem getCardsDueWithin_window_witness:
  "localDay exampleEngine 1704067200000 = localDay exampleEngine 1704067200000 \<and>
   plusLocalDays exampleEngine 1704067200000 7 = Some (1704067200000 + 7 * msPerDay) \<and>
   (\<exists>r. getCardsDueWithin exampleEngine exampleTrello 1704067200000 1704067200000 7 = Inr r \<and>
        map TrelloCard.truncate r =
          [exampleCard ''a'' ''board-1'' (Some ''2024-01-01T00:00:00.000Z'') False,
           exampleCard ''d'' ''board-2'' (Some ''2024-01-08T00:00:00.000Z'') True]) \<and>
   plusLocalDays newYorkEngine 1710003600000 1 = Some (1710003600000 + 23 * msPerHour) \<and>
   (\<exists>r. getCardsDueWithin newYorkEngine newYorkTrello 1710003600000 1710003600000 1 = Inr r \<and>
        map TrelloCard.truncate r = [])"
proof -
  have n: "filter (dueInWindow newYorkEngine 1710003600000
                     (Some (1710003600000 + 23 * msPerHour))) newYorkCards = []"
    by (simp add: newYorkCards_def exampleCard_def dueInWindow_def newYorkEngine_def msPerHour_def)
  have ny: "\<exists>r. getCardsDueWithin newYorkEngine newYorkTrello 1710003600000 1710003600000 1
                  = Inr r \<and> map TrelloCard.truncate r = []"
    using getCardsDueWithin_window [OF newYorkBoards_fetched newYorkCards_fetched refl
         newYorkEngine_empty, of 1710003600000 1]
    unfolding newYorkEngine_nextDay using n by simp
  have w: "filter (dueInWindow exampleEngine 1704067200000 (Some 1704672000000))
             (concat (map exampleCardsOf exampleBoards)) =
           [exampleCard ''a'' ''board-1'' (Some ''2024-01-01T00:00:00.000Z'') False,
            exampleCard ''d'' ''board-2'' (Some ''2024-01-08T00:00:00.000Z'') True]"
    by (simp add: exampleBoards_def exampleCardsOf_def exampleCard_def dueInWindow_def
        exampleEngine_def)
  have o: "localTZA exampleEngine (localTime exampleEngine 1704067200000 + 7 * msPerDay) False
             = localTZA exampleEngine 1704067200000 True"
    by (simp add: exampleEngine_def)
  have c: "timeClip (1704067200000 + 7 * msPerDay) = Some (1704067200000 + 7 * msPerDay)"
    by (simp add: timeClip_def msPerDay_def maxTime_def)
  from getCardsDueWithin_window [OF exampleBoards_fetched exampleCards_fetched refl
         exampleEngine_empty, of 1704067200000 7]
  show ?thesis unfolding exampleEngine_week w using o c ny newYorkEngine_nextDay by simp
qed

text \<open>
  C10, as claimed: every card due within days times 24 hours of now is returned,
  whatever its completion flag. It is not: in the two calls above, in New York
  across the change of the clocks and with an end beyond the range of dates, a
  completed card due in that interval is not returned.
\<close>

theorem getCardsDueWithin_keeps_completed_counterexample:
  "cardDueComplete (exampleCard ''n2'' ''board-1'' (Some ''2024-03-10T16:30:00.000Z'') True) \<and>
   exampleCard ''n2'' ''board-1'' (Some ''2024-03-10T16:30:00.000Z'') True \<in> set newYorkCards \<and>
   dueInWindow newYorkEngine 1710003600000 (Some (1710003600000 + 1 * msPerDay))
     (exampleCard ''n2'' ''board-1'' (Some ''2024-03-10T16:30:00.000Z'') True) \<and>
   getCardsDueWithin newYorkEngine newYorkTrello 1710003600000 1710003600000 1 = Inr [] \<and>
   cardDueComplete (exampleCard ''d'' ''board-2'' (Some ''2024-01-08T00:00:00.000Z'') True) \<and>
   dueInWindow exampleEngine 1704067200000 (Some (1704067200000 + 100000000 * msPerDay))
     (exampleCard ''d'' ''board-2'' (Some ''2024-01-08T00:00:00.000Z'') True) \<and>
   getCardsDueWithin exampleEngine exampleTrello 1704067200000 1704067200000 100000000 = Inr []"
  by code_simp

text \<open>
  C10, amended. When the remote service answers the request for the cards of every
  board and the two clock readings of the call fall on the same local day, a card
  whose due timestamp lies between \<open>now\<close> and the instant \<open>days\<close> calendar days after
  \<open>now'\<close> at the same local time of day is part of the result of
  \<open>getCardsDueWithin\<close> whatever its completion flag: the filter does not read
  \<open>cardDueComplete\<close>, so a completed card is kept.
\<close>

theorem getCardsDueWithin_keeps_completed:
  assumes "getBoards api = Inr boards"
      and "\<forall>b \<in> set boards. fetchFromTrello (boardCardsAnswer api (boardId b)) = Inr (cardsOf b)"
      and "localDay eng now' = localDay eng now"
      and "b \<in> set boards" and "c \<in> set (cardsOf b)"
      and "cardDue c = Some s" and "s \<noteq> []" and "parseDate eng s = Some t"
      and "now \<le> t" and "plusLocalDays eng now' days = Some hi" and "t \<le> hi"
  shows "(\<exists>r. getCardsDueWithin eng api now now' days = Inr r \<and>
              c \<in> TrelloCard.truncate ` set r) \<and>
         dueBetween eng now fd (c \<lparr> cardDueComplete := flag \<rparr>) = dueBetween eng now fd c"
proof -
  obtain bl where r: "getCardsDueWithin eng api now now' days =
           Inr (filter (dueBetween eng now (setDate eng (Some now') (getDate eng now + days)))
                  (map (enhance eng bl) (concat (map cardsOf boards))))"
    using getCardsDueWithin_fetched [OF assms(1,2)] by blast
  have fd: "setDate eng (Some now') (getDate eng now + days) = Some hi"
    using futureDate_sameDay [OF assms(3)] assms(10) by simp
  have kept: "dueBetween eng now (Some hi) (enhance eng bl c)"
    unfolding dueBetween_enhance using assms(6-9,11) by (simp add: dueBetween_def)
  have "c \<in> set (concat (map cardsOf boards))"
    using assms(4,5) by auto
  then have "enhance eng bl c \<in> set (filter (dueBetween eng now (Some hi))
                (map (enhance eng bl) (concat (map cardsOf boards))))"
    using kept by simp
  then have "TrelloCard.truncate (enhance eng bl c) \<in> TrelloCard.truncate `
               set (filter (dueBetween eng now (Some hi))
                (map (enhance eng bl) (concat (map cardsOf boards))))"
    by (rule imageI)
  then have "\<exists>r. getCardsDueWithin eng api now now' days = Inr r \<and> c \<in> TrelloCard.truncate ` set r"
    using r fd by (simp add: truncate_enhance)
  moreover have "dueBetween eng now fd (c \<lparr> cardDueComplete := flag \<rparr>) = dueBetween eng now fd c"
    by (simp add: dueBetween_def)
  ultimately show ?thesis by simp
qed

theorem getCardsDueWithin_keeps_completed_witness:
  "cardDueComplete (exampleCard ''d'' ''board-2'' (Some ''2024-01-08T00:00:00.000Z'') True) \<and>
   (\<exists>r. getCardsDueWithin exampleEngine exampleTrello 1704067200000 1704067200000 7 = Inr r \<and>
        exampleCard ''d'' ''board-2'' (Some ''2024-01-08T00:00:00.000Z'') True
          \<in> TrelloCard.truncate ` set r)"
proof -
  have b: "\<lparr> boardId = ''board-2'', boardName = ''Work'', boardShortUrl = ''https://trello.com/b/2'' \<rparr>
             \<in> set exampleBoards"
    by (simp add: exampleBoards_def)
  have c: "exampleCard ''d'' ''board-2'' (Some ''2024-01-08T00:00:00.000Z'') True
             \<in> set (exampleCardsOf
                  \<lparr> boardId = ''board-2'', boardName = ''Work'', boardShortUrl = ''https://trello.com/b/2'' \<rparr>)"
    by (simp add: exampleCardsOf_def)
  have d: "cardDue (exampleCard ''d'' ''board-2'' (Some ''2024-01-08T00:00:00.000Z'') True) =
             Some ''2024-01-08T00:00:00.000Z''"
    by (simp add: exampleCard_def)
  have p: "parseDate exampleEngine ''2024-01-08T00:00:00.000Z'' = Some 1704672000000"
    by (simp add: exampleEngine_def)
  have n: "''2024-01-08T00:00:00.000Z'' \<noteq> []"
    by simp
  have lo: "(1704067200000 :: int) \<le> 1704672000000"
    by simp
  have hi: "(1704672000000 :: int) \<le> 1704672000000"
    by simp
  from getCardsDueWithin_keeps_completed [OF exampleBoards_fetched exampleCards_fetched refl
         b c d n p lo exampleEngine_week hi]
  show ?thesis by (simp add: exampleCard_def)
qed

section \<open>Failure policies\<close>

text \<open>
  C8. When the remote answers with a status outside 200 to 299, each list operation
  of the task-board connector (boards, lists of a board, cards of a list) returns the
  empty sequence and raises nothing, while the page-content operation of the notes
  connector raises the error that carries the status and the status text, whether the
  failing answer is that of the page request or, after a page request that went well,
  that of the blocks request.
\<close>

theorem non_ok_status_policy:
  assumes "\<not> ok status"
  shows "(boardsAnswer api = Response status txt body1 \<longrightarrow> getBoards api = Inr []) \<and>
         (listsAnswer api b = Response status txt body2 \<longrightarrow> getLists api b = Inr []) \<and>
         (listCardsAnswer api l = Response status txt body3 \<longrightarrow> getCardsOnList api l = Inr []) \<and>
         (napi \<lparr> reqEndpoint = ''/pages/'' @ pid, reqMethod = ''GET'', reqBody = None \<rparr>
            = Response status txt body4 \<longrightarrow>
          getPageContent eng napi pid = Inl (HttpError ''Notion API error'' status txt)) \<and>
         (napi \<lparr> reqEndpoint = ''/pages/'' @ pid, reqMethod = ''GET'', reqBody = None \<rparr>
            = Response status' txt' (Some pageData) \<and> ok status' \<and>
          napi \<lparr> reqEndpoint = ''/blocks/'' @ pid @ ''/children'', reqMethod = ''GET'', reqBody = None \<rparr>
            = Response status txt body5 \<longrightarrow>
          getPageContent eng napi pid = Inl (HttpError ''Notion API error'' status txt))"
proof -
  have trello: "fetchFromTrello (Response status txt body) = Inl (HttpError ''Trello API error'' status txt)"
    for body :: "'a option"
    using assms by (simp add: fetchFromTrello_def readResponse_def)
  have boards: "boardsAnswer api = Response status txt body1 \<longrightarrow> getBoards api = Inr []"
    by (simp add: getBoards_def trello catchWith_def)
  have lists: "listsAnswer api b = Response status txt body2 \<longrightarrow> getLists api b = Inr []"
    by (simp add: getLists_def trello catchWith_def)
  have cards: "listCardsAnswer api l = Response status txt body3 \<longrightarrow> getCardsOnList api l = Inr []"
    by (simp add: getCardsOnList_def trello catchWith_def)
  have page: "napi \<lparr> reqEndpoint = ''/pages/'' @ pid, reqMethod = ''GET'', reqBody = None \<rparr>
            = Response status txt body4 \<longrightarrow>
          getPageContent eng napi pid = Inl (HttpError ''Notion API error'' status txt)"
    using assms by (simp add: getPageContent_def fetchFromNotion_def readResponse_def bindE_def)
  have blocks: "napi \<lparr> reqEndpoint = ''/pages/'' @ pid, reqMethod = ''GET'', reqBody = None \<rparr>
            = Response status' txt' (Some pageData) \<and> ok status' \<and>
          napi \<lparr> reqEndpoint = ''/blocks/'' @ pid @ ''/children'', reqMethod = ''GET'', reqBody = None \<rparr>
            = Response status txt body5 \<longrightarrow>
          getPageContent eng napi pid = Inl (HttpError ''Notion API error'' status txt)"
    using assms by (simp add: getPageContent_def fetchFromNotion_def readResponse_def bindE_def)
  show ?thesis using boards lists cards page blocks by blast
qed

theorem non_ok_status_policy_witness:
  "\<not> ok 500 \<and>
   getBoards failingTrello = Inr [] \<and>
   getLists failingTrello ''board-1'' = Inr [] \<and>
   getCardsOnList failingTrello ''list-1'' = Inr [] \<and>
   getPageContent exampleEngine failingNotion ''page-1'' =
     Inl (HttpError ''Notion API error'' 500 ''Internal Server Error'')"
proof -
  have s: "\<not> ok 500"
    by (simp add: ok_def)
  have a: "boardsAnswer failingTrello = Response 500 ''Internal Server Error'' None"
    and b: "listsAnswer failingTrello ''board-1'' = Response 500 ''Internal Server Error'' None"
    and c: "listCardsAnswer failingTrello ''list-1'' = Response 500 ''Internal Server Error'' None"
    by (simp_all add: failingTrello_def)
  have d: "failingNotion \<lparr> reqEndpoint = ''/pages/'' @ ''page-1'', reqMethod = ''GET'', reqBody = None \<rparr>
             = Response 500 ''Internal Server Error'' None"
    by (simp add: failingNotion_def)
  from non_ok_status_policy [OF s, of failingTrello "''Internal Server Error''" None
         "''board-1''" None "''list-1''" None failingNotion "''page-1''" None exampleEngine]
       a b c d s
  show ?thesis by simp
qed

text \<open>
  C6, as claimed: a call of \<open>createPage\<close> without parent raises the required-parameter
  error to its caller instead of returning the absent sentinel. It does not: with a
  remote that would accept the request, the call without parent returns the sentinel.
\<close>

theorem createPage_no_parent_counterexample:
  "createPage acceptingNotion ''Notes'' None = Inr None \<and>
   createPage acceptingNotion ''Notes'' None
     \<noteq> Inl (Error ''Parent ID is required to create a Notion page'')"
  by (simp add: createPage_def strOr_def catchWith_def)

text \<open>
  C6, amended. A call of \<open>createPage\<close> whose parent is absent or empty raises the
  required-parameter error inside its own try block, where it is caught: whatever the
  remote, the call returns the absent sentinel and raises nothing. With a parent, a
  rejected request or an answer whose status is outside 200 to 299 gives the absent
  sentinel too. No call raises an error to its caller.
\<close>

theorem createPage_absent_sentinel:
  "(strOr parentId [] = [] \<longrightarrow> createPage api title parentId = Inr None) \<and>
   (strOr parentId [] \<noteq> [] \<and>
    (api \<lparr> reqEndpoint = ''/pages'', reqMethod = ''POST'',
           reqBody = Some (createPageBody title (strOr parentId [])) \<rparr> = Rejected \<or>
     (\<exists>status txt body. \<not> ok status \<and>
        api \<lparr> reqEndpoint = ''/pages'', reqMethod = ''POST'',
              reqBody = Some (createPageBody title (strOr parentId [])) \<rparr>
          = Response status txt body)) \<longrightarrow>
    createPage api title parentId = Inr None) \<and>
   (\<exists>r. createPage api title parentId = Inr r)"
proof -
  have absent: "strOr parentId [] = [] \<longrightarrow> createPage api title parentId = Inr None"
    by (simp add: createPage_def catchWith_def)
  have sent: "truthy (createPageBody title p)" for p
    by (simp add: createPageBody_def)
  have transport: "strOr parentId [] \<noteq> [] \<and>
    (api \<lparr> reqEndpoint = ''/pages'', reqMethod = ''POST'',
           reqBody = Some (createPageBody title (strOr parentId [])) \<rparr> = Rejected \<or>
     (\<exists>status txt body. \<not> ok status \<and>
        api \<lparr> reqEndpoint = ''/pages'', reqMethod = ''POST'',
              reqBody = Some (createPageBody title (strOr parentId [])) \<rparr>
          = Response status txt body)) \<longrightarrow>
    createPage api title parentId = Inr None"
    by (auto simp: createPage_def catchWith_def fetchFromNotion_def readResponse_def bindE_def sent)
  have total: "\<exists>r. createPage api title parentId = Inr r"
    by (simp add: createPage_def catchWith_def split: sum.split)
  show ?thesis using absent transport total by blast
qed

theorem createPage_absent_sentinel_witness:
  "strOr None [] = [] \<and> createPage acceptingNotion ''Notes'' None = Inr None \<and>
   strOr (Some ''parent-1'') [] \<noteq> [] \<and> \<not> ok 500 \<and>
   createPage failingNotion ''Notes'' (Some ''parent-1'') = Inr None"
proof -
  have a: "strOr None [] = []"
    by (simp add: strOr_def)
  have b: "strOr (Some ''parent-1'') [] \<noteq> []"
    by (simp add: strOr_def)
  have s: "\<not> ok 500"
    by (simp add: ok_def)
  have f: "failingNotion \<lparr> reqEndpoint = ''/pages'', reqMethod = ''POST'',
              reqBody = Some (createPageBody ''Notes'' (strOr (Some ''parent-1'') [])) \<rparr>
          = Response 500 ''Internal Server Error'' None"
    by (simp add: failingNotion_def)
  have w1: "createPage acceptingNotion ''Notes'' None = Inr None"
    using createPage_absent_sentinel [of None acceptingNotion "''Notes''"] a by blast
  have w2: "createPage failingNotion ''Notes'' (Some ''parent-1'') = Inr None"
    using createPage_absent_sentinel [of "Some ''parent-1''" failingNotion "''Notes''"] b s f
    by blast
  show ?thesis using a b s w1 w2 by blast
qed

section \<open>Properties of the notes connector\<close>

lemma objectValues_truthy:
  "truthy props \<Longrightarrow>
   objectValues props = Inr (case objectValues props of Inl e \<Rightarrow> [] | Inr vs \<Rightarrow> vs)"
  by (cases props) simp_all

lemma findE_no_title:
  assumes "list_all (\<lambda>p. \<not> nullish p \<and> field p ''type'' \<noteq> JStr ''title'') vs"
  shows "findE (\<lambda>p. bindE (getProp p ''type'') (\<lambda>t. Inr (t = JStr ''title''))) vs = Inr JUndefined"
  using assms by (induction vs) (simp_all add: getProp_def bindE_def)

lemma scanProperties_none:
  assumes "list_all (\<lambda>p. \<not> nullish p \<and> \<not> nonEmptyArray (field p ''title'') \<and>
                          \<not> nonEmptyArray (field p ''rich_text'')) vs"
  shows "scanProperties eng vs title = Inr title"
  using assms by (induction vs) (simp_all add: getProp_def bindE_def)

lemma namedTitle_absent:
  assumes "field props ''title'' = JUndefined" "field props ''Title'' = JUndefined"
          "field props ''Name'' = JUndefined" "field props ''name'' = JUndefined"
  shows "\<not> truthy (namedTitle props)"
  using assms by (simp add: namedTitle_def orElse_def)

lemma list_all_conj: "list_all P xs \<Longrightarrow> list_all Q xs \<Longrightarrow> list_all (\<lambda>x. P x \<and> Q x) xs"
  by (induction xs) simp_all

lemma list_all_weaken: "list_all P xs \<Longrightarrow> (\<And>x. P x \<Longrightarrow> Q x) \<Longrightarrow> list_all Q xs"
  by (induction xs) simp_all

lemma extract_untitled:
  assumes "\<not> nullish page" and "noTitleProperty page"
      and "list_all (\<lambda>p. \<not> nullish p) (propertyValuesOf page)"
  shows "extractTitleRecent eng page = Inr (JStr ''Untitled'')"
    and "extractTitleSearch eng page = Inr (JStr ''Untitled'')"
proof -
  let ?props = "field page ''properties''"
  have named: "\<not> truthy (namedTitle ?props)"
    using assms(2) by (simp add: noTitleProperty_def namedTitle_absent)
  have child: "childPageTitle page t = t" for t
    using assms(2) by (simp add: noTitleProperty_def childPageTitle_def)
  have both: "list_all (\<lambda>p. \<not> nullish p \<and> (field p ''type'' \<noteq> JStr ''title'' \<and>
                     \<not> nonEmptyArray (field p ''title'') \<and>
                     \<not> nonEmptyArray (field p ''rich_text''))) (propertyValuesOf page)"
    using assms(2,3) by (simp add: noTitleProperty_def list_all_conj)
  have nofind: "findE (\<lambda>p. bindE (getProp p ''type'') (\<lambda>t. Inr (t = JStr ''title'')))
                  (propertyValuesOf page) = Inr JUndefined"
    by (rule findE_no_title) (rule list_all_weaken [OF both], simp)
  have noscan: "scanProperties eng (propertyValuesOf page) t = Inr t" for t
    by (rule scanProperties_none) (rule list_all_weaken [OF both], simp)
  have vals: "truthy ?props \<Longrightarrow> objectValues ?props = Inr (propertyValuesOf page)"
    unfolding propertyValuesOf_def by (rule objectValues_truthy)
  show "extractTitleRecent eng page = Inr (JStr ''Untitled'')"
    using assms(1) named child nofind noscan vals
    by (simp add: extractTitleRecent_def getProp_def bindE_def)
  show "extractTitleSearch eng page = Inr (JStr ''Untitled'')"
    using assms(1) named child noscan vals
    by (simp add: extractTitleSearch_def getProp_def bindE_def)
qed

lemma normalizePage_throws:
  assumes "callbackThrows extract page"
  shows "\<exists>e. normalizePage extract page = Inl e"
  using assms
  by (auto simp: callbackThrows_def normalizePage_def getProp_def bindE_def
           split: sum.splits json.splits)

lemma normalizePage_returns:
  assumes "\<not> callbackThrows extract page"
  shows "\<exists>n. normalizePage extract page = Inr n \<and> pageId n = field page ''id'' \<and>
             (\<forall>t. extract page = Inr t \<longrightarrow> pageTitle n = t) \<and>
             (\<forall>e s. extract page = Inl e \<and> field page ''id'' = JStr s
                     \<longrightarrow> pageTitle n = JStr (''Page '' @ take 8 s))"
  using assms
  by (auto simp: callbackThrows_def normalizePage_def getProp_def bindE_def
           split: sum.splits json.splits)

lemma mapE_nth:
  assumes "\<forall>x \<in> set xs. \<exists>y. f x = Inr y"
  shows "\<exists>ys. mapE f xs = Inr ys \<and> length ys = length xs \<and>
              (\<forall>i < length xs. f (xs ! i) = Inr (ys ! i))"
  using assms
proof (induction xs)
  case Nil
  show ?case by simp
next
  case (Cons x xs)
  obtain y where y: "f x = Inr y" using Cons.prems by auto
  obtain ys where ys: "mapE f xs = Inr ys" "length ys = length xs"
      "\<forall>i < length xs. f (xs ! i) = Inr (ys ! i)"
    using Cons by auto
  have "\<forall>i < length (x # xs). f ((x # xs) ! i) = Inr ((y # ys) ! i)"
    using y ys(3) by (auto simp: nth_Cons split: nat.split)
  then show ?case using y ys(1,2) by (simp add: bindE_def)
qed

lemma mapE_fails:
  assumes "x \<in> set xs" and "f x = Inl e"
  shows "\<exists>e'. mapE f xs = Inl e'"
  using assms by (induction xs) (auto simp: bindE_def split: sum.splits)

lemma getRecentPages_mapped:
  assumes "api \<lparr> reqEndpoint = ''/search'', reqMethod = ''POST'',
                 reqBody = Some (JObj [(''sort'', sortNewestFirst), (''page_size'', JNum (real limit))]) \<rparr>
             = Response status statusText (Some data)"
      and "ok status"
      and "field data ''results'' = JArr pages"
  shows "getRecentPages eng api limit =
           catchWith [] (mapE (normalizePage (extractTitleRecent eng)) pages)"
proof (cases pages)
  case Nil
  then show ?thesis using assms
    by (cases data)
       (simp_all add: getRecentPages_def fetchFromNotion_def readResponse_def bindE_def getProp_def
        catchWith_def)
next
  case (Cons p ps)
  have d: "\<not> nullish data" using assms(3) by (cases data) simp_all
  show ?thesis
  proof (cases "nullish p")
    case True
    then have "callbackThrows (extractTitleRecent eng) p" by (simp add: callbackThrows_def)
    then obtain e where "normalizePage (extractTitleRecent eng) p = Inl e"
      using normalizePage_throws by blast
    then show ?thesis using assms d Cons True
      by (simp add: getRecentPages_def fetchFromNotion_def readResponse_def bindE_def getProp_def
          catchWith_def)
  next
    case False
    then show ?thesis using assms d Cons
      by (simp add: getRecentPages_def fetchFromNotion_def readResponse_def bindE_def getProp_def
          catchWith_def)
  qed
qed

lemma searchPages_mapped:
  assumes "api \<lparr> reqEndpoint = ''/search'', reqMethod = ''POST'',
                 reqBody = Some (JObj [(''query'', JStr query), (''page_size'', JNum 10),
                                       (''sort'', sortNewestFirst)]) \<rparr>
             = Response status statusText (Some data)"
      and "ok status"
      and "field data ''results'' = JArr pages"
  shows "searchPages eng api query =
           catchWith [] (mapE (normalizePage (extractTitleSearch eng)) pages)"
proof -
  have d: "\<not> nullish data" using assms(3) by (cases data) simp_all
  show ?thesis using assms d
    by (cases pages)
       (simp_all add: searchPages_def fetchFromNotion_def readResponse_def bindE_def getProp_def
        catchWith_def)
qed

lemma pages_normalized:
  "(list_ex (callbackThrows extract) pages \<longrightarrow>
      catchWith [] (mapE (normalizePage extract) pages) = Inr []) \<and>
   (\<not> list_ex (callbackThrows extract) pages \<longrightarrow>
      (\<exists>ps. catchWith [] (mapE (normalizePage extract) pages) = Inr ps \<and>
            length ps = length pages \<and>
            (\<forall>i < length pages.
               pageId (ps ! i) = field (pages ! i) ''id'' \<and>
               (\<forall>t. extract (pages ! i) = Inr t \<longrightarrow> pageTitle (ps ! i) = t) \<and>
               (\<forall>e s. extract (pages ! i) = Inl e \<and> field (pages ! i) ''id'' = JStr s
                       \<longrightarrow> pageTitle (ps ! i) = JStr (''Page '' @ take 8 s)))))"
proof (intro conjI impI)
  assume "list_ex (callbackThrows extract) pages"
  then obtain p where p: "p \<in> set pages" "callbackThrows extract p"
    by (auto simp: list_ex_iff)
  obtain e where "normalizePage extract p = Inl e"
    using normalizePage_throws [OF p(2)] by blast
  then obtain e' where "mapE (normalizePage extract) pages = Inl e'"
    using mapE_fails [OF p(1)] by blast
  then show "catchWith [] (mapE (normalizePage extract) pages) = Inr []"
    by (simp add: catchWith_def)
next
  assume a: "\<not> list_ex (callbackThrows extract) pages"
  then have all: "\<forall>p \<in> set pages. \<not> callbackThrows extract p"
    by (simp add: list_ex_iff)
  then have "\<forall>p \<in> set pages. \<exists>n. normalizePage extract p = Inr n"
    using normalizePage_returns by blast
  then obtain ps where ps: "mapE (normalizePage extract) pages = Inr ps"
      "length ps = length pages"
      "\<forall>i < length pages. normalizePage extract (pages ! i) = Inr (ps ! i)"
    using mapE_nth [of pages "normalizePage extract"] by blast
  have "\<forall>i < length pages.
               pageId (ps ! i) = field (pages ! i) ''id'' \<and>
               (\<forall>t. extract (pages ! i) = Inr t \<longrightarrow> pageTitle (ps ! i) = t) \<and>
               (\<forall>e s. extract (pages ! i) = Inl e \<and> field (pages ! i) ''id'' = JStr s
                       \<longrightarrow> pageTitle (ps ! i) = JStr (''Page '' @ take 8 s))"
  proof (intro allI impI)
    fix i assume i: "i < length pages"
    then have "\<not> callbackThrows extract (pages ! i)" using all by simp
    from normalizePage_returns [OF this] ps(3) i
    show "pageId (ps ! i) = field (pages ! i) ''id'' \<and>
               (\<forall>t. extract (pages ! i) = Inr t \<longrightarrow> pageTitle (ps ! i) = t) \<and>
               (\<forall>e s. extract (pages ! i) = Inl e \<and> field (pages ! i) ''id'' = JStr s
                       \<longrightarrow> pageTitle (ps ! i) = JStr (''Page '' @ take 8 s))"
      by auto
  qed
  then show "\<exists>ps. catchWith [] (mapE (normalizePage extract) pages) = Inr ps \<and>
            length ps = length pages \<and>
            (\<forall>i < length pages.
               pageId (ps ! i) = field (pages ! i) ''id'' \<and>
               (\<forall>t. extract (pages ! i) = Inr t \<longrightarrow> pageTitle (ps ! i) = t) \<and>
               (\<forall>e s. extract (pages ! i) = Inl e \<and> field (pages ! i) ''id'' = JStr s
                       \<longrightarrow> pageTitle (ps ! i) = JStr (''Page '' @ take 8 s)))"
    using ps(1,2) by (simp add: catchWith_def)
qed


text \<open>
  C2, as claimed: a page without recognizable title property gets the title made of
  Page and the first 8 characters of its identifier. It does not: a database row
  whose only property is a number keeps the initial title Untitled, in the recent
  pages and in the search results.
\<close>

theorem page_title_fallback_counterexample:
  "noTitleProperty numberPage \<and>
   getRecentPages exampleEngine (searchAnswer [numberPage]) 5 =
     Inr [\<lparr> pageId = JStr ''59833787-2cf9-4fdf-8782-e53db20768a5'', pageTitle = JStr ''Untitled'',
            pageIcon = JUndefined, pageLastEditedTime = JUndefined,
            pageUrl = JStr ''https://www.notion.so/59833787'' \<rparr>] \<and>
   searchPages exampleEngine (searchAnswer [numberPage]) ''count'' =
     Inr [\<lparr> pageId = JStr ''59833787-2cf9-4fdf-8782-e53db20768a5'', pageTitle = JStr ''Untitled'',
            pageIcon = JUndefined, pageLastEditedTime = JUndefined,
            pageUrl = JStr ''https://www.notion.so/59833787'' \<rparr>] \<and>
   JStr ''Untitled'' \<noteq> JStr (''Page '' @ take 8 ''59833787-2cf9-4fdf-8782-e53db20768a5'')"
  by code_simp

text \<open>
  C2, amended. Take an ok answer of the search whose \<open>results\<close> are the pages \<open>pages\<close>.
  When no page of the answer makes its callback throw, \<open>getRecentPages\<close> and
  \<open>searchPages\<close> each return one page for every page of the answer, in order and with
  its identifier: a page that has no recognizable title property and no null property
  value has the title Untitled, and a page whose title extraction throws, as it does
  on a null property value, has the title made of Page and the first 8 characters of
  its identifier. When some page of the answer makes its callback throw, the result
  is empty.
\<close>

theorem page_title_untitled:
  assumes "api \<lparr> reqEndpoint = ''/search'', reqMethod = ''POST'',
                 reqBody = Some (JObj [(''sort'', sortNewestFirst), (''page_size'', JNum (real limit))]) \<rparr>
             = Response status statusText (Some data)"
      and "api \<lparr> reqEndpoint = ''/search'', reqMethod = ''POST'',
                 reqBody = Some (JObj [(''query'', JStr query), (''page_size'', JNum 10),
                                       (''sort'', sortNewestFirst)]) \<rparr>
             = Response status statusText (Some data)"
      and "ok status"
      and "field data ''results'' = JArr pages"
  shows "\<forall>(extract, returned) \<in> {(extractTitleRecent eng, getRecentPages eng api limit),
                                   (extractTitleSearch eng, searchPages eng api query)}.
           (list_ex (callbackThrows extract) pages \<longrightarrow> returned = Inr []) \<and>
           (\<not> list_ex (callbackThrows extract) pages \<longrightarrow>
              (\<exists>ps. returned = Inr ps \<and> length ps = length pages \<and>
                 (\<forall>i < length pages.
                    pageId (ps ! i) = field (pages ! i) ''id'' \<and>
                    (noTitleProperty (pages ! i) \<and>
                     list_all (\<lambda>p. \<not> nullish p) (propertyValuesOf (pages ! i))
                       \<longrightarrow> pageTitle (ps ! i) = JStr ''Untitled'') \<and>
                    (\<forall>e s. extract (pages ! i) = Inl e \<and> field (pages ! i) ''id'' = JStr s
                       \<longrightarrow> pageTitle (ps ! i) = JStr (''Page '' @ take 8 s)))))"
proof -
  have untitled: "xt p = Inr (JStr ''Untitled'')"
    if "xt = extractTitleRecent eng \<or> xt = extractTitleSearch eng"
      and "\<not> callbackThrows xt p" and "noTitleProperty p"
      and "list_all (\<lambda>p. \<not> nullish p) (propertyValuesOf p)" for xt p
  proof -
    have "\<not> nullish p" using that(2) by (simp add: callbackThrows_def)
    then show ?thesis using that(1,3,4) extract_untitled by blast
  qed
  have each: "(list_ex (callbackThrows xt) pages \<longrightarrow> returned = Inr []) \<and>
           (\<not> list_ex (callbackThrows xt) pages \<longrightarrow>
              (\<exists>ps. returned = Inr ps \<and> length ps = length pages \<and>
                 (\<forall>i < length pages.
                    pageId (ps ! i) = field (pages ! i) ''id'' \<and>
                    (noTitleProperty (pages ! i) \<and>
                     list_all (\<lambda>p. \<not> nullish p) (propertyValuesOf (pages ! i))
                       \<longrightarrow> pageTitle (ps ! i) = JStr ''Untitled'') \<and>
                    (\<forall>e s. xt (pages ! i) = Inl e \<and> field (pages ! i) ''id'' = JStr s
                       \<longrightarrow> pageTitle (ps ! i) = JStr (''Page '' @ take 8 s)))))"
    if ex: "xt = extractTitleRecent eng \<or> xt = extractTitleSearch eng"
      and ret: "returned = catchWith [] (mapE (normalizePage xt) pages)"
    for xt returned
  proof (intro conjI impI)
    assume "list_ex (callbackThrows xt) pages"
    then show "returned = Inr []" using pages_normalized [of xt pages] ret by simp
  next
    assume no: "\<not> list_ex (callbackThrows xt) pages"
    then obtain ps where ps: "returned = Inr ps" "length ps = length pages"
        "\<forall>i < length pages.
               pageId (ps ! i) = field (pages ! i) ''id'' \<and>
               (\<forall>t. xt (pages ! i) = Inr t \<longrightarrow> pageTitle (ps ! i) = t) \<and>
               (\<forall>e s. xt (pages ! i) = Inl e \<and> field (pages ! i) ''id'' = JStr s
                       \<longrightarrow> pageTitle (ps ! i) = JStr (''Page '' @ take 8 s))"
      using pages_normalized [of xt pages] ret by auto
    have "\<forall>i < length pages.
                    pageId (ps ! i) = field (pages ! i) ''id'' \<and>
                    (noTitleProperty (pages ! i) \<and>
                     list_all (\<lambda>p. \<not> nullish p) (propertyValuesOf (pages ! i))
                       \<longrightarrow> pageTitle (ps ! i) = JStr ''Untitled'') \<and>
                    (\<forall>e s. xt (pages ! i) = Inl e \<and> field (pages ! i) ''id'' = JStr s
                       \<longrightarrow> pageTitle (ps ! i) = JStr (''Page '' @ take 8 s))"
    proof (intro allI impI conjI)
      fix i assume i: "i < length pages"
      show "pageId (ps ! i) = field (pages ! i) ''id''" using ps(3) i by blast
    next
      fix i assume i: "i < length pages"
        and u: "noTitleProperty (pages ! i) \<and>
                list_all (\<lambda>p. \<not> nullish p) (propertyValuesOf (pages ! i))"
      have "\<not> callbackThrows xt (pages ! i)"
        using no i by (auto simp: list_ex_iff)
      then have "xt (pages ! i) = Inr (JStr ''Untitled'')"
        using untitled [OF ex] u by blast
      then show "pageTitle (ps ! i) = JStr ''Untitled''" using ps(3) i by blast
    next
      fix i e s assume i: "i < length pages"
        and "xt (pages ! i) = Inl e \<and> field (pages ! i) ''id'' = JStr s"
      then show "pageTitle (ps ! i) = JStr (''Page '' @ take 8 s)" using ps(3) by blast
    qed
    then show "\<exists>ps. returned = Inr ps \<and> length ps = length pages \<and>
                 (\<forall>i < length pages.
                    pageId (ps ! i) = field (pages ! i) ''id'' \<and>
                    (noTitleProperty (pages ! i) \<and>
                     list_all (\<lambda>p. \<not> nullish p) (propertyValuesOf (pages ! i))
                       \<longrightarrow> pageTitle (ps ! i) = JStr ''Untitled'') \<and>
                    (\<forall>e s. xt (pages ! i) = Inl e \<and> field (pages ! i) ''id'' = JStr s
                       \<longrightarrow> pageTitle (ps ! i) = JStr (''Page '' @ take 8 s)))"
      using ps(1,2) by blast
  qed
  note recent = getRecentPages_mapped [where api = api and limit = limit and eng = eng,
      OF assms(1,3,4)]
  note search = searchPages_mapped [where api = api and query = query and eng = eng,
      OF assms(2,3,4)]
  show ?thesis using each [OF _ recent] each [OF _ search] by simp
qed

theorem page_title_untitled_witness:
  "ok 200 \<and>
   \<not> list_ex (callbackThrows (extractTitleRecent exampleEngine))
       [numberPage, taskPage, nullPropertyPage] \<and>
   \<not> list_ex (callbackThrows (extractTitleSearch exampleEngine))
       [numberPage, taskPage, nullPropertyPage] \<and>
   noTitleProperty numberPage \<and>
   list_all (\<lambda>p. \<not> nullish p) (propertyValuesOf numberPage) \<and>
   extractTitleRecent exampleEngine nullPropertyPage = Inl TypeError \<and>
   extractTitleSearch exampleEngine nullPropertyPage = Inl TypeError \<and>
   (\<exists>ps. getRecentPages exampleEngine (searchAnswer [numberPage, taskPage, nullPropertyPage]) 5
            = Inr ps \<and> length ps = 3 \<and>
          pageTitle (ps ! 0) = JStr ''Untitled'' \<and>
          pageTitle (ps ! 2) = JStr ''Page 0a1b2c3d'') \<and>
   (\<exists>ps. searchPages exampleEngine (searchAnswer [numberPage, taskPage, nullPropertyPage]) ''count''
            = Inr ps \<and> length ps = 3 \<and>
          pageTitle (ps ! 0) = JStr ''Untitled'' \<and>
          pageTitle (ps ! 2) = JStr ''Page 0a1b2c3d'') \<and>
   list_ex (callbackThrows (extractTitleRecent exampleEngine)) [numberPage, numericIdPage] \<and>
   list_ex (callbackThrows (extractTitleSearch exampleEngine)) [numberPage, numericIdPage] \<and>
   getRecentPages exampleEngine (searchAnswer [numberPage, numericIdPage]) 5 = Inr [] \<and>
   searchPages exampleEngine (searchAnswer [numberPage, numericIdPage]) ''count'' = Inr []"
proof -
  let ?mixed = "[numberPage, taskPage, nullPropertyPage]"
  let ?bad = "[numberPage, numericIdPage]"
  have s: "ok 200"
    by (simp add: ok_def)
  have a: "searchAnswer pages r
             = Response 200 ''OK'' (Some (JObj [(''object'', JStr ''list''), (''results'', JArr pages)]))"
    for pages r
    by (simp add: searchAnswer_def)
  have f: "field (JObj [(''object'', JStr ''list''), (''results'', JArr pages)]) ''results''
             = JArr pages" for pages
    by simp
  have nr: "\<not> list_ex (callbackThrows (extractTitleRecent exampleEngine)) ?mixed"
    by code_simp
  have ns: "\<not> list_ex (callbackThrows (extractTitleSearch exampleEngine)) ?mixed"
    by code_simp
  have br: "list_ex (callbackThrows (extractTitleRecent exampleEngine)) ?bad"
    by code_simp
  have bs: "list_ex (callbackThrows (extractTitleSearch exampleEngine)) ?bad"
    by code_simp
  have t: "noTitleProperty numberPage"
    by code_simp
  have v: "list_all (\<lambda>p. \<not> nullish p) (propertyValuesOf numberPage)"
    by (simp add: numberPage_def propertyValuesOf_def)
  have er: "extractTitleRecent exampleEngine nullPropertyPage = Inl TypeError"
    by code_simp
  have es: "extractTitleSearch exampleEngine nullPropertyPage = Inl TypeError"
    by code_simp
  have i: "field nullPropertyPage ''id'' = JStr ''0a1b2c3d-0000-4fdf-8782-e53db20768a5''"
    by (simp add: nullPropertyPage_def)
  note mixed = page_title_untitled [where api = "searchAnswer ?mixed" and limit = 5
      and query = "''count''" and eng = exampleEngine, OF a a s f]
  note bad = page_title_untitled [where api = "searchAnswer ?bad" and limit = 5
      and query = "''count''" and eng = exampleEngine, OF a a s f]
  obtain ps where ps: "getRecentPages exampleEngine (searchAnswer ?mixed) 5 = Inr ps"
      "length ps = 3"
      "\<forall>i < 3. (noTitleProperty (?mixed ! i) \<and>
                   list_all (\<lambda>p. \<not> nullish p) (propertyValuesOf (?mixed ! i))
                     \<longrightarrow> pageTitle (ps ! i) = JStr ''Untitled'') \<and>
                (\<forall>e s. extractTitleRecent exampleEngine (?mixed ! i) = Inl e \<and>
                        field (?mixed ! i) ''id'' = JStr s
                     \<longrightarrow> pageTitle (ps ! i) = JStr (''Page '' @ take 8 s))"
    using mixed nr by auto
  have r0: "pageTitle (ps ! 0) = JStr ''Untitled''"
    using ps(3) t v by auto
  have "pageTitle (ps ! 2) = JStr (''Page '' @ take 8 ''0a1b2c3d-0000-4fdf-8782-e53db20768a5'')"
    using ps(3) er i by auto
  then have r2: "pageTitle (ps ! 2) = JStr ''Page 0a1b2c3d''"
    by simp
  obtain qs where qs: "searchPages exampleEngine (searchAnswer ?mixed) ''count'' = Inr qs"
      "length qs = 3"
      "\<forall>i < 3. (noTitleProperty (?mixed ! i) \<and>
                   list_all (\<lambda>p. \<not> nullish p) (propertyValuesOf (?mixed ! i))
                     \<longrightarrow> pageTitle (qs ! i) = JStr ''Untitled'') \<and>
                (\<forall>e s. extractTitleSearch exampleEngine (?mixed ! i) = Inl e \<and>
                        field (?mixed ! i) ''id'' = JStr s
                     \<longrightarrow> pageTitle (qs ! i) = JStr (''Page '' @ take 8 s))"
    using mixed ns by auto
  have q0: "pageTitle (qs ! 0) = JStr ''Untitled''"
    using qs(3) t v by auto
  have "pageTitle (qs ! 2) = JStr (''Page '' @ take 8 ''0a1b2c3d-0000-4fdf-8782-e53db20768a5'')"
    using qs(3) es i by auto
  then have q2: "pageTitle (qs ! 2) = JStr ''Page 0a1b2c3d''"
    by simp
  have e1: "getRecentPages exampleEngine (searchAnswer ?bad) 5 = Inr []"
    using bad br by auto
  have e2: "searchPages exampleEngine (searchAnswer ?bad) ''count'' = Inr []"
    using bad bs by auto
  show ?thesis
    using s nr ns t v er es ps(1,2) r0 r2 qs(1,2) q0 q2 br bs e1 e2 by blast
qed

text \<open>
  C3. The comment in \<open>searchPages\<close> says that it uses the page parsing of
  \<open>getRecentPages\<close>, but only \<open>getRecentPages\<close> looks for the property whose type is
  title. For a database row whose title column is named Task and follows a rich-text
  column, the recent pages show the title column and the search shows the rich text.
\<close>

theorem title_extraction_differs:
  "getRecentPages exampleEngine (searchAnswer [taskPage]) 5 =
     Inr [\<lparr> pageId = JStr ''7c1e5a52-1111-4fdf-8782-e53db20768a5'', pageTitle = JStr ''Buy milk'',
            pageIcon = JUndefined, pageLastEditedTime = JUndefined, pageUrl = JUndefined \<rparr>] \<and>
   searchPages exampleEngine (searchAnswer [taskPage]) ''milk'' =
     Inr [\<lparr> pageId = JStr ''7c1e5a52-1111-4fdf-8782-e53db20768a5'', pageTitle = JStr ''hello'',
            pageIcon = JUndefined, pageLastEditedTime = JUndefined, pageUrl = JUndefined \<rparr>]"
  by code_simp

theorem title_extraction_differs_witness:
  "truthy (JArr [taskPage]) \<and> field (JArr [taskPage]) ''length'' \<noteq> JNum 0 \<and>
   (\<exists>recent found.
      getRecentPages exampleEngine (searchAnswer [taskPage]) 5 = Inr recent \<and>
      searchPages exampleEngine (searchAnswer [taskPage]) ''milk'' = Inr found \<and>
      map pageTitle recent = [JStr ''Buy milk''] \<and> map pageTitle found = [JStr ''hello''] \<and>
      map pageTitle recent \<noteq> map pageTitle found)"
  using title_extraction_differs by simp

section \<open>Properties of the composer\<close>


lemma composeCard_matched:
  assumes "fetchFromGmail conn api (''/users/me/messages/'' @ emailId) = Inr email"
      and "processMessage email = Inr pe"
      and "msgSnippet pe = JStr snippet"
      and "composeDueDate eng (matchFirst datePattern snippet) (matchFirst timePattern snippet)
             = Inr due"
  shows "createTrelloCardFromEmail eng conn api trello emailId lst =
           catchWith None
             (createCard trello lst (orElse (msgSubject pe) (JStr ''No Subject''))
                (Some (describeEmail eng pe
                   (case matchFirst instructionPattern snippet of None \<Rightarrow> [] | Some i \<Rightarrow> i) due))
                due)"
  using assms
  by (simp add: createTrelloCardFromEmail_def composeCard_def bindE_def snippetMatch_def)

lemma exampleMail_fetched:
  "fetchFromGmail exampleConnector (exampleGmail snippet) (''/users/me/messages/'' @ ''m1'')
     = Inr (exampleMail snippet)"
  by (simp add: fetchFromGmail_def exampleConnector_def exampleGmail_def readResponse_def ok_def)

lemma exampleMail_processed: "processMessage (exampleMail snippet) = Inr (exampleProcessed snippet)"
proof -
  have f: "toLowerCase ''From'' = ''from''" and s: "toLowerCase ''Subject'' = ''subject''"
    by code_simp+
  have "headerValue (exampleMail snippet) ''from'' = Inr (JStr ''alice@example.com'')"
    by (simp add: headerValue_def exampleMail_def getProp_def optProp_def bindE_def
        headerNamed_def f orElse_def)
  moreover have "headerValue (exampleMail snippet) ''subject'' = Inr (JStr ''Report'')"
    by (simp add: headerValue_def exampleMail_def getProp_def optProp_def bindE_def
        headerNamed_def f s orElse_def)
  ultimately show ?thesis
    by (simp add: processMessage_def bindE_def exampleProcessed_def exampleMail_def orElse_def)
qed




text \<open>
  C5. \<open>createTrelloCardFromEmail\<close> never raises: every call returns, and it returns
  the absent sentinel whenever anything in its pipeline throws. When the message is
  fetched and read and its snippet has no match of the date pattern, the card is
  posted without due date, and the call returns the card the task board answers.
\<close>

theorem composer_never_raises:
  "(\<exists>r. createTrelloCardFromEmail eng conn api trello emailId lst = Inr r) \<and>
   (composeCard eng conn api trello emailId lst = Inl e \<longrightarrow>
      createTrelloCardFromEmail eng conn api trello emailId lst = Inr None) \<and>
   (fetchFromGmail conn api (''/users/me/messages/'' @ emailId) = Inr email \<and>
    processMessage email = Inr pe \<and> msgSnippet pe = JStr snippet \<and>
    matchFirst datePattern snippet = None \<longrightarrow>
      createTrelloCardFromEmail eng conn api trello emailId lst =
        catchWith None
          (createCard trello lst (orElse (msgSubject pe) (JStr ''No Subject''))
             (Some (describeEmail eng pe
                (case matchFirst instructionPattern snippet of None \<Rightarrow> [] | Some i \<Rightarrow> i) None))
             None) \<and>
      (ok status \<and>
       createCardAnswer trello
         \<lparr> postIdList = lst, postName = orElse (msgSubject pe) (JStr ''No Subject''),
           postDesc = describeEmail eng pe
             (case matchFirst instructionPattern snippet of None \<Rightarrow> [] | Some i \<Rightarrow> i) None,
           postDue = None \<rparr> = Response status statusText (Some created) \<longrightarrow>
       createTrelloCardFromEmail eng conn api trello emailId lst = Inr (Some created)))"
proof -
  have total: "\<exists>r. createTrelloCardFromEmail eng conn api trello emailId lst = Inr r"
    by (simp add: createTrelloCardFromEmail_def catchWith_def split: sum.split)
  have caught: "composeCard eng conn api trello emailId lst = Inl e \<longrightarrow>
      createTrelloCardFromEmail eng conn api trello emailId lst = Inr None"
    by (simp add: createTrelloCardFromEmail_def catchWith_def)
  have nonempty: "describeEmail eng pe instr None \<noteq> []" for instr
    by (simp add: describeEmail_def)
  have undated: "createTrelloCardFromEmail eng conn api trello emailId lst =
        catchWith None
          (createCard trello lst (orElse (msgSubject pe) (JStr ''No Subject''))
             (Some (describeEmail eng pe
                (case matchFirst instructionPattern snippet of None \<Rightarrow> [] | Some i \<Rightarrow> i) None))
             None)"
    if "fetchFromGmail conn api (''/users/me/messages/'' @ emailId) = Inr email"
      and "processMessage email = Inr pe" and "msgSnippet pe = JStr snippet"
      and "matchFirst datePattern snippet = None"
  proof -
    have "composeDueDate eng (matchFirst datePattern snippet) (matchFirst timePattern snippet)
            = Inr None"
      using that(4) by (simp add: composeDueDate_def)
    from composeCard_matched [OF that(1-3) this] show ?thesis .
  qed
  have answered: "catchWith None (createCard trello lst name (Some desc) None) = Inr (Some created)"
    if "ok status" and "desc \<noteq> []"
      and "createCardAnswer trello
             \<lparr> postIdList = lst, postName = name, postDesc = desc, postDue = None \<rparr>
           = Response status statusText (Some created)" for name desc
    using that by (simp add: createCard_def strOr_def catchWith_def)
  show ?thesis using total caught undated answered nonempty by metis
qed

theorem composer_never_raises_witness:
  "matchFirst datePattern undatedSnippet = None \<and> ok 200 \<and>
   createTrelloCardFromEmail exampleEngine exampleConnector (exampleGmail undatedSnippet)
       exampleTrello ''m1'' ''list-1'' =
     Inr (Some \<lparr> cardId = ''new'', cardName = ''Created'',
                 cardDesc = ''Re: Report'' @ newline @ ''From: alice@example.com'' @ newline
                            @ ''Action: Kindly call me back at 2:30pm.'' @ newline,
                 cardDue = None, cardDueComplete = False,
                 cardIdBoard = ''board-1'', cardIdList = ''list-1'', cardLabels = [] \<rparr>) \<and>
   composeCard exampleEngine exampleConnector (exampleGmail unparsedSnippet)
       exampleTrello ''m1'' ''list-1'' = Inl RangeError \<and>
   createTrelloCardFromEmail exampleEngine exampleConnector (exampleGmail unparsedSnippet)
       exampleTrello ''m1'' ''list-1'' = Inr None"
proof -
  let ?created = "\<lparr> cardId = ''new'', cardName = ''Created'',
                 cardDesc = ''Re: Report'' @ newline @ ''From: alice@example.com'' @ newline
                            @ ''Action: Kindly call me back at 2:30pm.'' @ newline,
                 cardDue = None, cardDueComplete = False,
                 cardIdBoard = ''board-1'', cardIdList = ''list-1'', cardLabels = [] \<rparr>"
  have s: "msgSnippet (exampleProcessed undatedSnippet) = JStr undatedSnippet"
    by (simp add: exampleProcessed_def)
  have d: "matchFirst datePattern undatedSnippet = None"
    by code_simp
  have k: "ok 200"
    by (simp add: ok_def)
  have a: "matchFirst instructionPattern undatedSnippet = Some undatedSnippet"
    by code_simp
  have desc: "describeEmail exampleEngine (exampleProcessed undatedSnippet)
                (case matchFirst instructionPattern undatedSnippet of None \<Rightarrow> [] | Some i \<Rightarrow> i) None =
              ''Re: Report'' @ newline @ ''From: alice@example.com'' @ newline
                @ ''Action: Kindly call me back at 2:30pm.'' @ newline"
    unfolding a
    by (simp add: describeEmail_def exampleProcessed_def orElse_def keyOf_def undatedSnippet_def)
  have n: "orElse (msgSubject (exampleProcessed undatedSnippet)) (JStr ''No Subject'')
             = JStr ''Report''"
    by (simp add: exampleProcessed_def orElse_def)
  have r: "createCardAnswer exampleTrello
             \<lparr> postIdList = ''list-1'',
               postName = orElse (msgSubject (exampleProcessed undatedSnippet)) (JStr ''No Subject''),
               postDesc = describeEmail exampleEngine (exampleProcessed undatedSnippet)
                (case matchFirst instructionPattern undatedSnippet of None \<Rightarrow> [] | Some i \<Rightarrow> i) None,
               postDue = None \<rparr> =
           Response 200 ''OK'' (Some ?created)"
    unfolding desc n by (simp add: exampleTrello_def)
  have e: "composeCard exampleEngine exampleConnector (exampleGmail unparsedSnippet)
             exampleTrello ''m1'' ''list-1'' = Inl RangeError"
    by code_simp
  have w1: "createTrelloCardFromEmail exampleEngine exampleConnector (exampleGmail undatedSnippet)
       exampleTrello ''m1'' ''list-1'' = Inr (Some ?created)"
    using composer_never_raises [where eng = exampleEngine and conn = exampleConnector
        and api = "exampleGmail undatedSnippet" and trello = exampleTrello
        and emailId = "''m1''" and lst = "''list-1''" and email = "exampleMail undatedSnippet"
        and pe = "exampleProcessed undatedSnippet" and snippet = undatedSnippet
        and status = 200 and statusText = "''OK''" and created = ?created]
      exampleMail_fetched [of undatedSnippet] exampleMail_processed [of undatedSnippet] s d k r
    by blast
  have w2: "createTrelloCardFromEmail exampleEngine exampleConnector (exampleGmail unparsedSnippet)
       exampleTrello ''m1'' ''list-1'' = Inr None"
    using composer_never_raises [where eng = exampleEngine and conn = exampleConnector
        and api = "exampleGmail unparsedSnippet" and trello = exampleTrello
        and emailId = "''m1''" and lst = "''list-1''" and e = RangeError] e
    by blast
  show ?thesis using d k w1 e w2 by blast
qed

end
